theory Spec2Isabelle
  imports Main "HOL-Library.Word"
begin

unbundle bit_operations_syntax

section \<open>Data model (can.h)\<close>

type_synonym u8 = "8 word"
type_synonym u32 = "32 word"

text \<open>
  The controller handle of can.h. Every field is a \<open>uint8_t\<close> except the baud rate.
\<close>

record CAN_Control_HandleTypeDef =
  spi :: u8
  opmode :: u8
  oneshot :: u8
  samplepoint :: u8
  wakeupfilter :: u8
  rxbufferopmode :: u8
  rxbuffer0rollover :: u8
  baudrate :: u32

text \<open>
  The transmit descriptor. The C arrays \<open>txframetype[3]\<close>, \<open>datalength[3]\<close> and
  \<open>txid[3]\<close> are indexed by constants only and are functions of the index here;
  \<open>data[3][8]\<close> is a row of bytes per buffer. The fields \<open>datalength\<close> and \<open>data\<close>
  carry a \<open>tx_\<close> prefix because the receive descriptor has fields of the same name.
\<close>

record CAN_Control_TX =
  txbuffernmbr :: u8
  txframetype :: "nat \<Rightarrow> u8"
  tx_datalength :: "nat \<Rightarrow> u8"
  tx_data :: "nat \<Rightarrow> u8 list"
  txid :: "nat \<Rightarrow> u32"

text \<open>
  The receive descriptor. \<open>data[2][8]\<close> is a function of row and column here,
  because a read of more than eight data bytes runs on from one row into what follows
  it in the structure (see \<open>rx_memory_from\<close> below).
\<close>

record CAN_Control_RX =
  rxbuffernmbr :: u8
  rxframetype :: "nat \<Rightarrow> u8"
  rx_datalength :: "nat \<Rightarrow> u8"
  accfilter :: "nat \<Rightarrow> u8"
  rolloverstatus :: u8
  rx_data :: "nat \<Rightarrow> nat \<Rightarrow> u8"
  rxid :: "nat \<Rightarrow> u32"

record CAN_Control_RX_Mask =
  rxmasknmbr :: u8
  rxmaskvalue :: "nat \<Rightarrow> u32"

record CAN_Control_RX_Filter =
  rxfilternmbr :: u8
  extendedidenable :: u8
  rxfiltervalue :: "nat \<Rightarrow> u32"

subsection \<open>Constants of can.h\<close>

definition OSC1_FREQ :: u32 where "OSC1_FREQ = 8000000"
definition CAN_SPI1 :: u8 where "CAN_SPI1 = 0x00"
definition CAN_SPI2 :: u8 where "CAN_SPI2 = 0x01"

definition RESET_INS :: u8 where "RESET_INS = 0xC0"
definition WRITE_INS :: u8 where "WRITE_INS = 0x02"
definition READ_INS :: u8 where "READ_INS = 0x03"
definition BIT_MODIFY_INS :: u8 where "BIT_MODIFY_INS = 0x05"

definition CAN_BAUD_500_KBPS :: u32 where "CAN_BAUD_500_KBPS = 500000"
definition CAN_BAUD_250_KBPS :: u32 where "CAN_BAUD_250_KBPS = 250000"
definition CAN_BAUD_125_KBPS :: u32 where "CAN_BAUD_125_KBPS = 125000"
definition CAN_BAUD_100_KBPS :: u32 where "CAN_BAUD_100_KBPS = 100000"
definition CAN_BAUD_50_KBPS :: u32 where "CAN_BAUD_50_KBPS = 50000"

definition NORMAL_OP_MODE :: u8 where "NORMAL_OP_MODE = 0x00"
definition SLEEP_OP_MODE :: u8 where "SLEEP_OP_MODE = 0x01"
definition LOOPBACK_OP_MODE :: u8 where "LOOPBACK_OP_MODE = 0x02"
definition LISTEN_ONLY_OP_MODE :: u8 where "LISTEN_ONLY_OP_MODE = 0x03"
definition CONFIGURATION_OP_MODE :: u8 where "CONFIGURATION_OP_MODE = 0x04"

definition RXB0_TURN_MASKS_FILTERS_OFF :: u8 where "RXB0_TURN_MASKS_FILTERS_OFF = 0x01"
definition RXB1_TURN_MASKS_FILTERS_OFF :: u8 where "RXB1_TURN_MASKS_FILTERS_OFF = 0x02"
definition RXB0_ROLLOVER_ENABLED :: u8 where "RXB0_ROLLOVER_ENABLED = 0x01"
definition ROLLOVER_OCCURRED :: u8 where "ROLLOVER_OCCURRED = 0x01"
definition ROLLOVER_NOT_OCCURRED :: u8 where "ROLLOVER_NOT_OCCURRED = 0x00"

definition TXB0 :: u8 where "TXB0 = 0x01"
definition TXB1 :: u8 where "TXB1 = 0x02"
definition TXB2 :: u8 where "TXB2 = 0x04"
definition RXB0 :: u8 where "RXB0 = 0x01"
definition RXB1 :: u8 where "RXB1 = 0x02"

definition TX_STANDARD_DATA_FRAME :: u8 where "TX_STANDARD_DATA_FRAME = 0x00"
definition TX_EXTENDED_DATA_FRAME :: u8 where "TX_EXTENDED_DATA_FRAME = 0x01"
definition TX_STANDARD_REMOTE_FRAME :: u8 where "TX_STANDARD_REMOTE_FRAME = 0x02"
definition TX_EXTENDED_REMOTE_FRAME :: u8 where "TX_EXTENDED_REMOTE_FRAME = 0x03"

definition RX_STANDARD_DATA_FRAME :: u8 where "RX_STANDARD_DATA_FRAME = 0x00"
definition RX_EXTENDED_DATA_FRAME :: u8 where "RX_EXTENDED_DATA_FRAME = 0x01"
definition RX_STANDARD_REMOTE_FRAME :: u8 where "RX_STANDARD_REMOTE_FRAME = 0x02"
definition RX_EXTENDED_REMOTE_FRAME :: u8 where "RX_EXTENDED_REMOTE_FRAME = 0x03"

definition RXM0 :: u8 where "RXM0 = 0x01"
definition RXM1 :: u8 where "RXM1 = 0x02"

definition TX_PENDING :: u8 where "TX_PENDING = 0x00"
definition TX_LOST_ARBITRATION :: u8 where "TX_LOST_ARBITRATION = 0x01"
definition TX_BUS_ERROR :: u8 where "TX_BUS_ERROR = 0x02"
definition TX_BUS_ERROR_AND_LOST_ARBITRATION :: u8 where
  "TX_BUS_ERROR_AND_LOST_ARBITRATION = 0x03"
definition TX_ABORTED :: u8 where "TX_ABORTED = 0x04"
definition TX_SUCCESS :: u8 where "TX_SUCCESS = 0x05"

text \<open>Register addresses.\<close>

definition CANCTRL_REG :: u8 where "CANCTRL_REG = 0x0F"
definition RXM0SIDH_REG :: u8 where "RXM0SIDH_REG = 0x20"
definition RXM1SIDH_REG :: u8 where "RXM1SIDH_REG = 0x24"
definition CNF3_REG :: u8 where "CNF3_REG = 0x28"
definition CANINTE_REG :: u8 where "CANINTE_REG = 0x2B"
definition CANINTF_REG :: u8 where "CANINTF_REG = 0x2C"
definition EFLG_REG :: u8 where "EFLG_REG = 0x2D"
definition TXB0CTRL_REG :: u8 where "TXB0CTRL_REG = 0x30"
definition TXB0SIDH_REG :: u8 where "TXB0SIDH_REG = 0x31"
definition TXB0D0_REG :: u8 where "TXB0D0_REG = 0x36"
definition TXB1CTRL_REG :: u8 where "TXB1CTRL_REG = 0x40"
definition TXB1SIDH_REG :: u8 where "TXB1SIDH_REG = 0x41"
definition TXB1D0_REG :: u8 where "TXB1D0_REG = 0x46"
definition TXB2CTRL_REG :: u8 where "TXB2CTRL_REG = 0x50"
definition TXB2SIDH_REG :: u8 where "TXB2SIDH_REG = 0x51"
definition TXB2D0_REG :: u8 where "TXB2D0_REG = 0x56"
definition RXB0CTRL_REG :: u8 where "RXB0CTRL_REG = 0x60"
definition RXB0D0_REG :: u8 where "RXB0D0_REG = 0x66"
definition RXB1CTRL_REG :: u8 where "RXB1CTRL_REG = 0x70"
definition RXB1D0_REG :: u8 where "RXB1D0_REG = 0x76"
definition RXB1D1_REG :: u8 where "RXB1D1_REG = 0x77"

text \<open>Register bit definitions.\<close>

definition SID_BIT_2 :: u8 where "SID_BIT_2 = 0x80"
definition SID_BIT_1 :: u8 where "SID_BIT_1 = 0x40"
definition SID_BIT_0 :: u8 where "SID_BIT_0 = 0x20"
definition SRR_RECEIVED_STANDARD_REMOTE_REQUEST :: u8 where
  "SRR_RECEIVED_STANDARD_REMOTE_REQUEST = 0x10"
definition IDE_RECEIVED_EXTENDED_FRAME :: u8 where "IDE_RECEIVED_EXTENDED_FRAME = 0x08"
definition EXIDE_MSG_TRANSMIT_EXTENDED_ID :: u8 where "EXIDE_MSG_TRANSMIT_EXTENDED_ID = 0x08"
definition EXIDE_FILTER_APPLY_ONLY_EXTENDED_FRAMES :: u8 where
  "EXIDE_FILTER_APPLY_ONLY_EXTENDED_FRAMES = 0x08"
definition EID_BIT_17 :: u8 where "EID_BIT_17 = 0x02"
definition EID_BIT_16 :: u8 where "EID_BIT_16 = 0x01"

definition RTR_TRANSMIT_REMOTE_FRAME_REQUEST :: u8 where
  "RTR_TRANSMIT_REMOTE_FRAME_REQUEST = 0x40"
definition RTR_RECEIVED_REMOTE_FRAME_REQUEST :: u8 where
  "RTR_RECEIVED_REMOTE_FRAME_REQUEST = 0x40"
definition DLC_BIT_3 :: u8 where "DLC_BIT_3 = 0x08"
definition DLC_BIT_2 :: u8 where "DLC_BIT_2 = 0x04"
definition DLC_BIT_1 :: u8 where "DLC_BIT_1 = 0x02"
definition DLC_BIT_0 :: u8 where "DLC_BIT_0 = 0x01"

definition ABTF_MESSAGE_ABORTED :: u8 where "ABTF_MESSAGE_ABORTED = 0x40"
definition ABTF_TRANSMISSION_COMPLETE :: u8 where "ABTF_TRANSMISSION_COMPLETE = 0x00"
definition MLOA_LOST_ARBITRATION :: u8 where "MLOA_LOST_ARBITRATION = 0x20"
definition TXERR_BUS_ERROR :: u8 where "TXERR_BUS_ERROR = 0x10"
definition TXREQ_PENDING :: u8 where "TXREQ_PENDING = 0x08"
definition TXREQ_NO_PENDING :: u8 where "TXREQ_NO_PENDING = 0x00"
definition TXP_BIT_1 :: u8 where "TXP_BIT_1 = 0x02"
definition TXP_BIT_0 :: u8 where "TXP_BIT_0 = 0x01"

definition RXM_RECEIVE_ANY_MESSAGE :: u8 where "RXM_RECEIVE_ANY_MESSAGE = 0x60"
definition ROLLOVER_ACCEPTANCE_FILTER_0 :: u8 where "ROLLOVER_ACCEPTANCE_FILTER_0 = 0x06"
definition BUKT_RXB0_ROLLOVER_ENABLED :: u8 where "BUKT_RXB0_ROLLOVER_ENABLED = 0x04"
definition BUKT1_RXB0_ROLLOVER_ENABLED :: u8 where "BUKT1_RXB0_ROLLOVER_ENABLED = 0x02"
definition FILHIT_BIT_2 :: u8 where "FILHIT_BIT_2 = 0x04"
definition FILHIT_BIT_1 :: u8 where "FILHIT_BIT_1 = 0x02"
definition FILHIT_BIT_0 :: u8 where "FILHIT_BIT_0 = 0x01"

definition REQOP_CONFIGURATION_MODE :: u8 where "REQOP_CONFIGURATION_MODE = 0x80"
definition REQOP_LISTEN_MODE :: u8 where "REQOP_LISTEN_MODE = 0x60"
definition REQOP_LOOPBACK_MODE :: u8 where "REQOP_LOOPBACK_MODE = 0x40"
definition REQOP_SLEEP_MODE :: u8 where "REQOP_SLEEP_MODE = 0x20"
definition REQOP_NORMAL_MODE :: u8 where "REQOP_NORMAL_MODE = 0x00"
definition ABAT_REQ_ABORT_TX :: u8 where "ABAT_REQ_ABORT_TX = 0x10"
definition ABAT_TERMINATE_REQ_ABORT_TX :: u8 where "ABAT_TERMINATE_REQ_ABORT_TX = 0x00"

definition PHSEG2_3TQ :: u8 where "PHSEG2_3TQ = 0x02"
definition PHSEG2_6TQ :: u8 where "PHSEG2_6TQ = 0x05"
definition PHSEG2_7TQ :: u8 where "PHSEG2_7TQ = 0x06"
definition BTLMODE_PS2_PHSEG2_CNF3 :: u8 where "BTLMODE_PS2_PHSEG2_CNF3 = 0x80"
definition PHSEG1_2TQ :: u8 where "PHSEG1_2TQ = 0x08"
definition PHSEG1_5TQ :: u8 where "PHSEG1_5TQ = 0x20"
definition PHSEG1_6TQ :: u8 where "PHSEG1_6TQ = 0x28"
definition PRSEG_2TQ :: u8 where "PRSEG_2TQ = 0x01"
definition PRSEG_3TQ :: u8 where "PRSEG_3TQ = 0x02"
definition PRSEG_4TQ :: u8 where "PRSEG_4TQ = 0x03"
definition PRSEG_6TQ :: u8 where "PRSEG_6TQ = 0x05"
definition SJW_1TQ :: u8 where "SJW_1TQ = 0x00"
definition BRP_BIT_1 :: u8 where "BRP_BIT_1 = 0x02"
definition BRP_BIT_0 :: u8 where "BRP_BIT_0 = 0x01"

definition RXF0 :: u8 where "RXF0 = 0x01"
definition RXF1 :: u8 where "RXF1 = 0x02"
definition RXF2 :: u8 where "RXF2 = 0x04"
definition RXF3 :: u8 where "RXF3 = 0x08"
definition RXF4 :: u8 where "RXF4 = 0x10"
definition RXF5 :: u8 where "RXF5 = 0x20"
definition RXF0_EXTENDED_ID_ENABLED :: u8 where "RXF0_EXTENDED_ID_ENABLED = 0x01"
definition RXF1_EXTENDED_ID_ENABLED :: u8 where "RXF1_EXTENDED_ID_ENABLED = 0x02"
definition RXF2_EXTENDED_ID_ENABLED :: u8 where "RXF2_EXTENDED_ID_ENABLED = 0x04"
definition RXF3_EXTENDED_ID_ENABLED :: u8 where "RXF3_EXTENDED_ID_ENABLED = 0x08"
definition RXF4_EXTENDED_ID_ENABLED :: u8 where "RXF4_EXTENDED_ID_ENABLED = 0x10"
definition RXF5_EXTENDED_ID_ENABLED :: u8 where "RXF5_EXTENDED_ID_ENABLED = 0x20"
definition RXF0SIDH_REG :: u8 where "RXF0SIDH_REG = 0x00"
definition RXF1SIDH_REG :: u8 where "RXF1SIDH_REG = 0x04"
definition RXF2SIDH_REG :: u8 where "RXF2SIDH_REG = 0x08"
definition RXF3SIDH_REG :: u8 where "RXF3SIDH_REG = 0x10"
definition RXF4SIDH_REG :: u8 where "RXF4SIDH_REG = 0x14"
definition RXF5SIDH_REG :: u8 where "RXF5SIDH_REG = 0x18"

lemmas can_consts =
  OSC1_FREQ_def CAN_SPI1_def CAN_SPI2_def RESET_INS_def WRITE_INS_def READ_INS_def
  BIT_MODIFY_INS_def CAN_BAUD_500_KBPS_def CAN_BAUD_250_KBPS_def CAN_BAUD_125_KBPS_def
  CAN_BAUD_100_KBPS_def CAN_BAUD_50_KBPS_def NORMAL_OP_MODE_def SLEEP_OP_MODE_def
  LOOPBACK_OP_MODE_def LISTEN_ONLY_OP_MODE_def CONFIGURATION_OP_MODE_def
  RXB0_TURN_MASKS_FILTERS_OFF_def RXB1_TURN_MASKS_FILTERS_OFF_def RXB0_ROLLOVER_ENABLED_def
  ROLLOVER_OCCURRED_def ROLLOVER_NOT_OCCURRED_def TXB0_def TXB1_def TXB2_def RXB0_def RXB1_def
  TX_STANDARD_DATA_FRAME_def TX_EXTENDED_DATA_FRAME_def TX_STANDARD_REMOTE_FRAME_def
  TX_EXTENDED_REMOTE_FRAME_def RX_STANDARD_DATA_FRAME_def RX_EXTENDED_DATA_FRAME_def
  RX_STANDARD_REMOTE_FRAME_def RX_EXTENDED_REMOTE_FRAME_def RXM0_def RXM1_def
  TX_PENDING_def TX_LOST_ARBITRATION_def TX_BUS_ERROR_def
  TX_BUS_ERROR_AND_LOST_ARBITRATION_def TX_ABORTED_def TX_SUCCESS_def
  CANCTRL_REG_def RXM0SIDH_REG_def RXM1SIDH_REG_def CNF3_REG_def CANINTE_REG_def
  CANINTF_REG_def EFLG_REG_def TXB0CTRL_REG_def TXB0SIDH_REG_def TXB0D0_REG_def
  TXB1CTRL_REG_def TXB1SIDH_REG_def TXB1D0_REG_def TXB2CTRL_REG_def TXB2SIDH_REG_def
  TXB2D0_REG_def RXB0CTRL_REG_def RXB0D0_REG_def RXB1CTRL_REG_def RXB1D0_REG_def
  RXB1D1_REG_def SID_BIT_2_def SID_BIT_1_def SID_BIT_0_def
  SRR_RECEIVED_STANDARD_REMOTE_REQUEST_def IDE_RECEIVED_EXTENDED_FRAME_def
  EXIDE_MSG_TRANSMIT_EXTENDED_ID_def EXIDE_FILTER_APPLY_ONLY_EXTENDED_FRAMES_def
  EID_BIT_17_def EID_BIT_16_def RTR_TRANSMIT_REMOTE_FRAME_REQUEST_def
  RTR_RECEIVED_REMOTE_FRAME_REQUEST_def DLC_BIT_3_def DLC_BIT_2_def DLC_BIT_1_def
  DLC_BIT_0_def ABTF_MESSAGE_ABORTED_def ABTF_TRANSMISSION_COMPLETE_def
  MLOA_LOST_ARBITRATION_def TXERR_BUS_ERROR_def TXREQ_PENDING_def TXREQ_NO_PENDING_def
  TXP_BIT_1_def TXP_BIT_0_def RXM_RECEIVE_ANY_MESSAGE_def ROLLOVER_ACCEPTANCE_FILTER_0_def
  BUKT_RXB0_ROLLOVER_ENABLED_def BUKT1_RXB0_ROLLOVER_ENABLED_def FILHIT_BIT_2_def
  FILHIT_BIT_1_def FILHIT_BIT_0_def REQOP_CONFIGURATION_MODE_def REQOP_LISTEN_MODE_def
  REQOP_LOOPBACK_MODE_def REQOP_SLEEP_MODE_def REQOP_NORMAL_MODE_def ABAT_REQ_ABORT_TX_def
  ABAT_TERMINATE_REQ_ABORT_TX_def PHSEG2_3TQ_def PHSEG2_6TQ_def PHSEG2_7TQ_def
  BTLMODE_PS2_PHSEG2_CNF3_def PHSEG1_2TQ_def PHSEG1_5TQ_def PHSEG1_6TQ_def PRSEG_2TQ_def
  PRSEG_3TQ_def PRSEG_4TQ_def PRSEG_6TQ_def SJW_1TQ_def BRP_BIT_1_def BRP_BIT_0_def
  RXF0_def RXF1_def RXF2_def RXF3_def RXF4_def RXF5_def RXF0_EXTENDED_ID_ENABLED_def
  RXF1_EXTENDED_ID_ENABLED_def RXF2_EXTENDED_ID_ENABLED_def RXF3_EXTENDED_ID_ENABLED_def
  RXF4_EXTENDED_ID_ENABLED_def RXF5_EXTENDED_ID_ENABLED_def RXF0SIDH_REG_def
  RXF1SIDH_REG_def RXF2SIDH_REG_def RXF3SIDH_REG_def RXF4SIDH_REG_def RXF5SIDH_REG_def

section \<open>The environment: SPI transport and delay timer (spi.c, timer.c)\<close>

text \<open>
  The driver talks to the controller through the two SPI peripherals and waits with
  the timer. What it does to them is recorded, in order, as a trace of events; what
  the bus delivers to an SPI read is an input stream \<open>miso\<close>, of which \<open>clocked\<close>
  bytes have been consumed. The handle lives in the same state because every driver
  function receives it through a non-const pointer.
\<close>

datatype spi_bus = SPI1 | SPI2

datatype event =
    Init spi_bus
  | CS_Enable spi_bus
  | CS_Disable spi_bus
  | Write spi_bus "u8 list"
  | Write_Beyond spi_bus nat
  | Read spi_bus nat
  | Delay_us u32
  | Division_By_Zero

record world =
  hcan :: CAN_Control_HandleTypeDef
  trace :: "event list"
  miso :: "nat \<Rightarrow> u8"
  clocked :: nat

definition emit :: "event list \<Rightarrow> world \<Rightarrow> world" where
  "emit es w = w\<lparr>trace := trace w @ es\<rparr>"

definition SPI_Init :: "spi_bus \<Rightarrow> world \<Rightarrow> world" where
  "SPI_Init b w = emit [Init b] w"

definition SPI_CS_Enable :: "spi_bus \<Rightarrow> world \<Rightarrow> world" where
  "SPI_CS_Enable b w = emit [CS_Enable b] w"

definition SPI_CS_Disable :: "spi_bus \<Rightarrow> world \<Rightarrow> world" where
  "SPI_CS_Disable b w = emit [CS_Disable b] w"

text \<open>
  \<open>SPIn_Write(data, size)\<close> sends \<open>data[0] .. data[size - 1]\<close>. When \<open>size\<close> exceeds
  the array the loop goes on reading the memory behind it: the event
  \<open>Write_Beyond b k\<close> stands for the \<open>k\<close> bytes sent from beyond the array's end.
\<close>

definition SPI_Write :: "spi_bus \<Rightarrow> u8 list \<Rightarrow> u8 \<Rightarrow> world \<Rightarrow> world" where
  "SPI_Write b data sz w =
     (if unat sz \<le> length data then emit [Write b (take (unat sz) data)] w
      else emit [Write b data, Write_Beyond b (unat sz - length data)] w)"

text \<open>
  \<open>SPIn_Read(read, size)\<close> clocks \<open>size\<close> bytes in and stores them from \<open>read[0]\<close>
  on. The bytes are returned; \<open>store\<close> writes them over the front of the caller's
  buffer. The callers in can.c pass a buffer that is long enough: the local arrays for
  counts of 1 and 6, and the receive descriptor from the data row to its end for the
  data bytes.
\<close>

definition SPI_Read :: "spi_bus \<Rightarrow> u8 \<Rightarrow> world \<Rightarrow> u8 list \<times> world" where
  "SPI_Read b sz w =
     (map (miso w) [clocked w ..< clocked w + unat sz],
      w\<lparr>trace := trace w @ [Read b (unat sz)], clocked := clocked w + unat sz\<rparr>)"

definition store :: "u8 list \<Rightarrow> u8 list \<Rightarrow> u8 list" where
  "store buf bytes = bytes @ drop (length bytes) buf"

definition TIM3_Delay_us :: "u32 \<Rightarrow> world \<Rightarrow> world" where
  "TIM3_Delay_us us w = emit [Delay_us us] w"

section \<open>The SPI command layer (can.c)\<close>

definition CAN_Control_Register_Write :: "u8 \<Rightarrow> u8 list \<Rightarrow> u8 \<Rightarrow> world \<Rightarrow> world" where
  "CAN_Control_Register_Write reg_addr data sz w =
     (let instruction = WRITE_INS;
          w = (if spi (hcan w) = CAN_SPI1 then
                 (let w = SPI_CS_Enable SPI1 w;
                      w = SPI_Write SPI1 [instruction] 1 w;
                      w = SPI_Write SPI1 [reg_addr] 1 w;
                      w = SPI_Write SPI1 data sz w
                  in SPI_CS_Disable SPI1 w)
               else if spi (hcan w) = CAN_SPI2 then
                 (let w = SPI_CS_Enable SPI2 w;
                      w = SPI_Write SPI2 [instruction] 1 w;
                      w = SPI_Write SPI2 [reg_addr] 1 w;
                      w = SPI_Write SPI2 data sz w
                  in SPI_CS_Disable SPI2 w)
               else w)
      in TIM3_Delay_us 50 w)"

text \<open>
  A read leaves the caller's buffer as it was when the handle names no SPI
  peripheral; the updated buffer is returned with the new state.
\<close>

definition CAN_Control_Register_Read ::
  "u8 \<Rightarrow> u8 list \<Rightarrow> u8 \<Rightarrow> world \<Rightarrow> u8 list \<times> world" where
  "CAN_Control_Register_Read reg_addr data sz w =
     (let instruction = READ_INS;
          (data, w) =
            (if spi (hcan w) = CAN_SPI1 then
               (let w = SPI_CS_Enable SPI1 w;
                    w = SPI_Write SPI1 [instruction] 1 w;
                    w = SPI_Write SPI1 [reg_addr] 1 w;
                    (bytes, w) = SPI_Read SPI1 sz w
                in (store data bytes, SPI_CS_Disable SPI1 w))
             else if spi (hcan w) = CAN_SPI2 then
               (let w = SPI_CS_Enable SPI2 w;
                    w = SPI_Write SPI2 [instruction] 1 w;
                    w = SPI_Write SPI2 [reg_addr] 1 w;
                    (bytes, w) = SPI_Read SPI2 sz w
                in (store data bytes, SPI_CS_Disable SPI2 w))
             else (data, w))
      in (data, TIM3_Delay_us 50 w))"

definition CAN_Control_Register_Bit :: "u8 \<Rightarrow> u8 \<Rightarrow> u8 \<Rightarrow> world \<Rightarrow> world" where
  "CAN_Control_Register_Bit reg_addr msk data w =
     (let instruction = BIT_MODIFY_INS;
          w = (if spi (hcan w) = CAN_SPI1 then
                 (let w = SPI_CS_Enable SPI1 w;
                      w = SPI_Write SPI1 [instruction] 1 w;
                      w = SPI_Write SPI1 [reg_addr] 1 w;
                      w = SPI_Write SPI1 [msk] 1 w;
                      w = SPI_Write SPI1 [data] 1 w
                  in SPI_CS_Disable SPI1 w)
               else if spi (hcan w) = CAN_SPI2 then
                 (let w = SPI_CS_Enable SPI2 w;
                      w = SPI_Write SPI2 [instruction] 1 w;
                      w = SPI_Write SPI2 [reg_addr] 1 w;
                      w = SPI_Write SPI2 [msk] 1 w;
                      w = SPI_Write SPI2 [data] 1 w
                  in SPI_CS_Disable SPI2 w)
               else w)
      in TIM3_Delay_us 50 w)"

text \<open>
  \<open>GET_OST(osc_freq)\<close> is \<open>128000000UL / osc_freq\<close>; \<open>CAN_Control_Reset\<close> keeps it in
  a \<open>uint8_t\<close> local and passes it to the delay.
\<close>

definition GET_OST :: "u32 \<Rightarrow> u32" where
  "GET_OST osc_freq = 128000000 div osc_freq"

definition CAN_Control_Reset :: "world \<Rightarrow> world" where
  "CAN_Control_Reset w =
     (let instruction = RESET_INS;
          ost = (ucast (GET_OST OSC1_FREQ) :: u8);
          w = (if spi (hcan w) = CAN_SPI1 then
                 (let w = SPI_CS_Enable SPI1 w;
                      w = SPI_Write SPI1 [instruction] 1 w
                  in SPI_CS_Disable SPI1 w)
               else if spi (hcan w) = CAN_SPI2 then
                 (let w = SPI_CS_Enable SPI2 w;
                      w = SPI_Write SPI2 [instruction] 1 w
                  in SPI_CS_Disable SPI2 w)
               else w);
          w = TIM3_Delay_us 50 w
      in TIM3_Delay_us (ucast ost) w)"

section \<open>Mode, bit timing, masks and filters (can.c)\<close>

text \<open>The \<open>switch\<close> on the mode, with its empty \<open>default\<close>.\<close>

definition CAN_Control_Set_Op_Mode :: "u8 \<Rightarrow> world \<Rightarrow> world" where
  "CAN_Control_Set_Op_Mode opmode' w =
     (let spi_write = oneshot (hcan w) in
      if opmode' = NORMAL_OP_MODE then
        CAN_Control_Register_Write CANCTRL_REG [spi_write OR REQOP_NORMAL_MODE] 1 w
      else if opmode' = SLEEP_OP_MODE then
        CAN_Control_Register_Write CANCTRL_REG [spi_write OR REQOP_SLEEP_MODE] 1 w
      else if opmode' = LOOPBACK_OP_MODE then
        CAN_Control_Register_Write CANCTRL_REG [spi_write OR REQOP_LOOPBACK_MODE] 1 w
      else if opmode' = LISTEN_ONLY_OP_MODE then
        CAN_Control_Register_Write CANCTRL_REG [spi_write OR REQOP_LISTEN_MODE] 1 w
      else if opmode' = CONFIGURATION_OP_MODE then
        CAN_Control_Register_Write CANCTRL_REG [spi_write OR REQOP_CONFIGURATION_MODE] 1 w
      else w)"

text \<open>The \<open>switch\<close> on the baud rate; the three bytes are CNF3, CNF2 and CNF1.\<close>

definition CAN_Control_Set_Baud_Rate :: "u32 \<Rightarrow> world \<Rightarrow> world" where
  "CAN_Control_Set_Baud_Rate baudrate' w =
     (let h = hcan w in
      if baudrate' = CAN_BAUD_500_KBPS then
        CAN_Control_Register_Write CNF3_REG
          [wakeupfilter h OR PHSEG2_3TQ,
           BTLMODE_PS2_PHSEG2_CNF3 OR samplepoint h OR PHSEG1_2TQ OR PRSEG_2TQ,
           SJW_1TQ] 3 w
      else if baudrate' = CAN_BAUD_250_KBPS then
        CAN_Control_Register_Write CNF3_REG
          [wakeupfilter h OR PHSEG2_6TQ,
           BTLMODE_PS2_PHSEG2_CNF3 OR samplepoint h OR PHSEG1_5TQ OR PRSEG_4TQ,
           SJW_1TQ] 3 w
      else if baudrate' = CAN_BAUD_125_KBPS then
        CAN_Control_Register_Write CNF3_REG
          [wakeupfilter h OR PHSEG2_6TQ,
           BTLMODE_PS2_PHSEG2_CNF3 OR samplepoint h OR PHSEG1_6TQ OR PRSEG_3TQ,
           SJW_1TQ OR BRP_BIT_0] 3 w
      else if baudrate' = CAN_BAUD_100_KBPS then
        CAN_Control_Register_Write CNF3_REG
          [wakeupfilter h OR PHSEG2_7TQ,
           BTLMODE_PS2_PHSEG2_CNF3 OR samplepoint h OR PHSEG1_6TQ OR PRSEG_6TQ,
           SJW_1TQ OR BRP_BIT_0] 3 w
      else if baudrate' = CAN_BAUD_50_KBPS then
        CAN_Control_Register_Write CNF3_REG
          [wakeupfilter h OR PHSEG2_7TQ,
           BTLMODE_PS2_PHSEG2_CNF3 OR samplepoint h OR PHSEG1_6TQ OR PRSEG_6TQ,
           SJW_1TQ OR BRP_BIT_1 OR BRP_BIT_0] 3 w
      else w)"

text \<open>
  The four register bytes SIDH, SIDL, EID8, EID0 of a 29-bit value, as the mask, the
  filter and the extended transmit paths compute them (each assignment truncates the
  32-bit expression to a byte).
\<close>

definition id_registers :: "u32 \<Rightarrow> u8 list" where
  "id_registers v =
     [ucast (drop_bit 21 v),
      ucast (drop_bit 13 v AND 0xE0) OR ucast (drop_bit 16 v AND 0x03),
      ucast (drop_bit 8 v),
      ucast v]"

definition Set_RX_Mask_n :: "u8 \<Rightarrow> nat \<Rightarrow> u8 \<Rightarrow> CAN_Control_RX_Mask \<Rightarrow> world \<Rightarrow> world" where
  "Set_RX_Mask_n sel n sidh_reg hmask w =
     (if rxmasknmbr hmask AND sel = sel then
        CAN_Control_Register_Write sidh_reg (id_registers (rxmaskvalue hmask n)) 4 w
      else w)"

definition CAN_Control_Set_RX_Mask :: "CAN_Control_RX_Mask \<Rightarrow> world \<Rightarrow> world" where
  "CAN_Control_Set_RX_Mask hmask w =
     (let w = Set_RX_Mask_n RXM0 0 RXM0SIDH_REG hmask w
      in Set_RX_Mask_n RXM1 1 RXM1SIDH_REG hmask w)"

text \<open>
  The six filter blocks of \<open>CAN_Control_Set_RX_Filter\<close> are the same code with the
  filter's selection bit, extended-enable bit, index and SIDH address changed.
\<close>

definition Set_RX_Filter_n ::
  "u8 \<Rightarrow> u8 \<Rightarrow> nat \<Rightarrow> u8 \<Rightarrow> CAN_Control_RX_Filter \<Rightarrow> world \<Rightarrow> world" where
  "Set_RX_Filter_n sel ext n sidh_reg hfilter w =
     (if rxfilternmbr hfilter AND sel = sel then
        (let spi_write = id_registers (rxfiltervalue hfilter n);
             spi_write =
               (if extendedidenable hfilter AND ext = ext
                then spi_write[1 := spi_write ! 1 OR EXIDE_FILTER_APPLY_ONLY_EXTENDED_FRAMES]
                else spi_write)
         in CAN_Control_Register_Write sidh_reg spi_write 4 w)
      else w)"

definition CAN_Control_Set_RX_Filter :: "CAN_Control_RX_Filter \<Rightarrow> world \<Rightarrow> world" where
  "CAN_Control_Set_RX_Filter hfilter w =
     (let w = Set_RX_Filter_n RXF0 RXF0_EXTENDED_ID_ENABLED 0 RXF0SIDH_REG hfilter w;
          w = Set_RX_Filter_n RXF1 RXF1_EXTENDED_ID_ENABLED 1 RXF1SIDH_REG hfilter w;
          w = Set_RX_Filter_n RXF2 RXF2_EXTENDED_ID_ENABLED 2 RXF2SIDH_REG hfilter w;
          w = Set_RX_Filter_n RXF3 RXF3_EXTENDED_ID_ENABLED 3 RXF3SIDH_REG hfilter w;
          w = Set_RX_Filter_n RXF4 RXF4_EXTENDED_ID_ENABLED 4 RXF4SIDH_REG hfilter w
      in Set_RX_Filter_n RXF5 RXF5_EXTENDED_ID_ENABLED 5 RXF5SIDH_REG hfilter w)"

section \<open>Initialisation (can.c)\<close>

definition CAN_Control_Init :: "world \<Rightarrow> world" where
  "CAN_Control_Init w =
     (let spi_write = (0 :: u8) in
      if spi (hcan w) = CAN_SPI1 \<or> spi (hcan w) = CAN_SPI2 then
        (let w = (if spi (hcan w) = CAN_SPI1 then SPI_Init SPI1 w else SPI_Init SPI2 w);
             w = CAN_Control_Reset w;
             w = CAN_Control_Set_Baud_Rate (baudrate (hcan w)) w;
             spi_write =
               (if rxbufferopmode (hcan w) AND RXB0_TURN_MASKS_FILTERS_OFF
                     = RXB0_TURN_MASKS_FILTERS_OFF
                then spi_write OR RXM_RECEIVE_ANY_MESSAGE else spi_write);
             spi_write =
               (if rxbuffer0rollover (hcan w) AND RXB0_ROLLOVER_ENABLED = RXB0_ROLLOVER_ENABLED
                then spi_write OR BUKT_RXB0_ROLLOVER_ENABLED else spi_write);
             w = (if spi_write \<noteq> 0
                  then CAN_Control_Register_Write RXB0CTRL_REG [spi_write] 1 w else w);
             w = (if rxbufferopmode (hcan w) AND RXB1_TURN_MASKS_FILTERS_OFF
                       = RXB1_TURN_MASKS_FILTERS_OFF
                  then CAN_Control_Register_Write RXB1CTRL_REG [RXM_RECEIVE_ANY_MESSAGE] 1 w
                  else w)
         in CAN_Control_Set_Op_Mode (opmode (hcan w)) w)
      else w)"

section \<open>Frame transmitter (can.c, can.h)\<close>

text \<open>
  The identifier bytes of a transmit buffer: the complete identifier with EXIDE set
  for the two extended frame types, the 11-bit identifier otherwise.
\<close>

definition tx_id_registers :: "u8 \<Rightarrow> u32 \<Rightarrow> u8 list" where
  "tx_id_registers frametype v =
     (if frametype = TX_EXTENDED_DATA_FRAME \<or> frametype = TX_EXTENDED_REMOTE_FRAME then
        (let spi_write = id_registers v
         in spi_write[1 := spi_write ! 1 OR EXIDE_MSG_TRANSMIT_EXTENDED_ID])
      else [ucast (drop_bit 3 v), ucast (push_bit 5 v), 0, 0])"

text \<open>
  The \<open>WAIT_SEND_*\<close> macros, in \<open>unsigned long\<close> (32-bit) arithmetic; \<open>d\<close> is the
  data length byte, \<open>b\<close> the handle's baud rate. C leaves the division by a zero
  baud rate undefined: the model marks it with an event of its own.
\<close>

definition WAIT_SEND_STANDARD_DATA_FRAME :: "u8 \<Rightarrow> u32 \<Rightarrow> world \<Rightarrow> world" where
  "WAIT_SEND_STANDARD_DATA_FRAME d b w =
     (if b = 0 then emit [Division_By_Zero] w
      else TIM3_Delay_us ((8 * ucast d + 44 + (33 + 8 * ucast d) div 4) * (1000000 div b)) w)"

definition WAIT_SEND_EXTENDED_DATA_FRAME :: "u8 \<Rightarrow> u32 \<Rightarrow> world \<Rightarrow> world" where
  "WAIT_SEND_EXTENDED_DATA_FRAME d b w =
     (if b = 0 then emit [Division_By_Zero] w
      else TIM3_Delay_us ((8 * ucast d + 64 + (53 + 8 * ucast d) div 4) * (1000000 div b)) w)"

definition WAIT_SEND_STANDARD_REMOTE_FRAME :: "u32 \<Rightarrow> world \<Rightarrow> world" where
  "WAIT_SEND_STANDARD_REMOTE_FRAME b w =
     (if b = 0 then emit [Division_By_Zero] w
      else TIM3_Delay_us (50 * (1000000 div b)) w)"

definition WAIT_SEND_EXTENDED_REMOTE_FRAME :: "u32 \<Rightarrow> world \<Rightarrow> world" where
  "WAIT_SEND_EXTENDED_REMOTE_FRAME b w =
     (if b = 0 then emit [Division_By_Zero] w
      else TIM3_Delay_us (73 * (1000000 div b)) w)"

text \<open>
  The three buffer blocks of \<open>CAN_Control_Send_CAN_Frame\<close> are the same code with the
  index and the three register addresses changed: \<open>Send_TXBn n sidh d0 ctrl\<close> is one
  block, for a buffer that is selected.
\<close>

definition Send_TXBn :: "nat \<Rightarrow> u8 \<Rightarrow> u8 \<Rightarrow> u8 \<Rightarrow> CAN_Control_TX \<Rightarrow> world \<Rightarrow> world" where
  "Send_TXBn n sidh_reg d0_reg ctrl_reg txcan w =
     (let frametype = txframetype txcan n;
          spi_write = tx_id_registers frametype (txid txcan n) @ [tx_datalength txcan n];
          (spi_write, w) =
            (if frametype = TX_STANDARD_REMOTE_FRAME \<or> frametype = TX_EXTENDED_REMOTE_FRAME
             then
               (let spi_write =
                      spi_write[4 := spi_write ! 4 OR RTR_TRANSMIT_REMOTE_FRAME_REQUEST]
                in (spi_write, CAN_Control_Register_Write sidh_reg spi_write 5 w))
             else
               (let w = CAN_Control_Register_Write sidh_reg spi_write 5 w
                in (spi_write,
                    CAN_Control_Register_Write d0_reg (tx_data txcan n)
                      (tx_datalength txcan n) w)));
          spi_write = spi_write[0 := TXREQ_PENDING];
          w = CAN_Control_Register_Write ctrl_reg spi_write 1 w
      in if frametype = TX_EXTENDED_DATA_FRAME then
           WAIT_SEND_EXTENDED_DATA_FRAME (tx_datalength txcan n) (baudrate (hcan w)) w
         else if frametype = TX_STANDARD_DATA_FRAME then
           WAIT_SEND_STANDARD_DATA_FRAME (tx_datalength txcan n) (baudrate (hcan w)) w
         else if frametype = TX_EXTENDED_REMOTE_FRAME then
           WAIT_SEND_EXTENDED_REMOTE_FRAME (baudrate (hcan w)) w
         else
           WAIT_SEND_STANDARD_REMOTE_FRAME (baudrate (hcan w)) w)"

definition CAN_Control_Send_CAN_Frame :: "CAN_Control_TX \<Rightarrow> world \<Rightarrow> world" where
  "CAN_Control_Send_CAN_Frame txcan w =
     (let w = (if txbuffernmbr txcan AND TXB0 = TXB0
               then Send_TXBn 0 TXB0SIDH_REG TXB0D0_REG TXB0CTRL_REG txcan w else w);
          w = (if txbuffernmbr txcan AND TXB1 = TXB1
               then Send_TXBn 1 TXB1SIDH_REG TXB1D0_REG TXB1CTRL_REG txcan w else w)
      in if txbuffernmbr txcan AND TXB2 = TXB2
         then Send_TXBn 2 TXB2SIDH_REG TXB2D0_REG TXB2CTRL_REG txcan w else w)"

section \<open>Frame receiver (can.c)\<close>

text \<open>
  The identifier as \<open>CAN_Control_Read_CAN_Frame\<close> rebuilds it from the six bytes
  CTRL, SIDH, SIDL, EID8, EID0, DLC of a receive buffer: the extended branch when the
  IDE bit of SIDL is set, the standard branch otherwise.
\<close>

definition rx_extended_id :: "u8 list \<Rightarrow> u32" where
  "rx_extended_id spi_read =
     push_bit 21 (ucast (spi_read ! 1))
     OR push_bit 18 (ucast (spi_read ! 2 AND (SID_BIT_2 OR SID_BIT_1 OR SID_BIT_0)))
     OR push_bit 16 (ucast (spi_read ! 2 AND (EID_BIT_17 OR EID_BIT_16)))
     OR push_bit 8 (ucast (spi_read ! 3))
     OR ucast (spi_read ! 4)"

definition rx_standard_id :: "u8 list \<Rightarrow> u32" where
  "rx_standard_id spi_read =
     push_bit 3 (ucast (spi_read ! 1)) OR ucast (drop_bit 5 (spi_read ! 2))"

text \<open>
  The data bytes are read straight into \<open>rxcan->data[n]\<close> with the received data
  length as the count, a DLC nibble of up to 15, while a row has eight bytes. On the
  Cortex-M0 (little-endian, \<open>uint32_t\<close> aligned to four bytes) the descriptor is 32
  bytes: eight one-byte fields at offsets 0 to 7, \<open>data[0]\<close> at 8, \<open>data[1]\<close> at 16,
  \<open>rxid[0]\<close> at 24 and \<open>rxid[1]\<close> at 28. \<open>rx_memory_from n\<close> is the memory from
  \<open>data[n][0]\<close> to the end of the descriptor, the buffer the read writes into, and
  \<open>rx_memory_put n\<close> puts such a buffer back; fifteen bytes from either row end
  inside the descriptor.
\<close>

definition le_bytes :: "u32 \<Rightarrow> u8 list" where
  "le_bytes v = [ucast v, ucast (drop_bit 8 v), ucast (drop_bit 16 v), ucast (drop_bit 24 v)]"

definition le_word :: "u8 list \<Rightarrow> nat \<Rightarrow> u32" where
  "le_word m k =
     ucast (m ! k) OR push_bit 8 (ucast (m ! (k + 1))) OR push_bit 16 (ucast (m ! (k + 2)))
     OR push_bit 24 (ucast (m ! (k + 3)))"

definition rx_memory_from :: "nat \<Rightarrow> CAN_Control_RX \<Rightarrow> u8 list" where
  "rx_memory_from n rxcan =
     (if n = 0 then map (rx_data rxcan 0) [0..<8] else []) @
     map (rx_data rxcan 1) [0..<8] @ le_bytes (rxid rxcan 0) @ le_bytes (rxid rxcan 1)"

definition rx_memory_put :: "nat \<Rightarrow> u8 list \<Rightarrow> CAN_Control_RX \<Rightarrow> CAN_Control_RX" where
  "rx_memory_put n m rxcan =
     (let off = (if n = 0 then 8 else 0) in
      rxcan\<lparr>rx_data :=
              (\<lambda>r i. if r = 0 \<and> n = 0 \<and> i < 8 then m ! i
                     else if r = 1 \<and> i < 8 then m ! (off + i)
                     else rx_data rxcan r i),
            rxid :=
              (\<lambda>j. if j = 0 then le_word m (off + 8)
                   else if j = 1 then le_word m (off + 12)
                   else rxid rxcan j)\<rparr>)"

text \<open>
  The block for RXB0. \<open>spi_read\<close> is the function's six-byte local array, passed in
  because C does not initialise it; the block returns it for the next one.
\<close>

definition Read_RXB0 ::
  "u8 list \<Rightarrow> CAN_Control_RX \<Rightarrow> world \<Rightarrow> u8 list \<times> CAN_Control_RX \<times> world" where
  "Read_RXB0 spi_read rxcan w =
     (let (spi_read, w) = CAN_Control_Register_Read RXB0CTRL_REG spi_read 6 w;
          rxcan = rxcan\<lparr>accfilter := (accfilter rxcan)(0 := spi_read ! 0 AND FILHIT_BIT_0)\<rparr>;
          rxcan = rxcan\<lparr>rx_datalength := (rx_datalength rxcan)
                    (0 := spi_read ! 5 AND (DLC_BIT_3 OR DLC_BIT_2 OR DLC_BIT_1 OR DLC_BIT_0))\<rparr>;
          rollover =
            (ROLLOVER_ACCEPTANCE_FILTER_0 \<le>
               spi_read ! 0 AND
                 (BUKT_RXB0_ROLLOVER_ENABLED OR BUKT1_RXB0_ROLLOVER_ENABLED OR FILHIT_BIT_0));
          read_data = (\<lambda>rxcan w.
            if rollover then
              (let rxcan = rxcan\<lparr>rolloverstatus := ROLLOVER_OCCURRED\<rparr>;
                   (m, w) = CAN_Control_Register_Read RXB1D0_REG (rx_memory_from 0 rxcan)
                              (rx_datalength rxcan 0) w
               in (rx_memory_put 0 m rxcan, w))
            else
              (let rxcan = rxcan\<lparr>rolloverstatus := ROLLOVER_NOT_OCCURRED\<rparr>;
                   (m, w) = CAN_Control_Register_Read RXB0D0_REG (rx_memory_from 0 rxcan)
                              (rx_datalength rxcan 0) w
               in (rx_memory_put 0 m rxcan, w)));
          (rxcan, w) =
            (if spi_read ! 2 AND IDE_RECEIVED_EXTENDED_FRAME = IDE_RECEIVED_EXTENDED_FRAME then
               (let rxcan = rxcan\<lparr>rxid := (rxid rxcan)(0 := rx_extended_id spi_read)\<rparr>
                in if spi_read ! 5 AND RTR_RECEIVED_REMOTE_FRAME_REQUEST
                        = RTR_RECEIVED_REMOTE_FRAME_REQUEST
                   then (rxcan\<lparr>rxframetype :=
                           (rxframetype rxcan)(0 := RX_EXTENDED_REMOTE_FRAME)\<rparr>, w)
                   else read_data
                          (rxcan\<lparr>rxframetype :=
                             (rxframetype rxcan)(0 := RX_EXTENDED_DATA_FRAME)\<rparr>) w)
             else
               (let rxcan = rxcan\<lparr>rxid := (rxid rxcan)(0 := rx_standard_id spi_read)\<rparr>
                in if spi_read ! 2 AND SRR_RECEIVED_STANDARD_REMOTE_REQUEST
                        = SRR_RECEIVED_STANDARD_REMOTE_REQUEST
                   then (rxcan\<lparr>rxframetype :=
                           (rxframetype rxcan)(0 := RX_STANDARD_REMOTE_FRAME)\<rparr>, w)
                   else read_data
                          (rxcan\<lparr>rxframetype :=
                             (rxframetype rxcan)(0 := RX_STANDARD_DATA_FRAME)\<rparr>) w))
      in (spi_read, rxcan, w))"

text \<open>
  The block for RXB1: no rollover test, and the data of a standard data frame is read
  from \<open>RXB1D1_REG\<close>.
\<close>

definition Read_RXB1 ::
  "u8 list \<Rightarrow> CAN_Control_RX \<Rightarrow> world \<Rightarrow> u8 list \<times> CAN_Control_RX \<times> world" where
  "Read_RXB1 spi_read rxcan w =
     (let (spi_read, w) = CAN_Control_Register_Read RXB1CTRL_REG spi_read 6 w;
          rxcan = rxcan\<lparr>accfilter := (accfilter rxcan)
                    (1 := spi_read ! 0 AND (FILHIT_BIT_2 OR FILHIT_BIT_1 OR FILHIT_BIT_0))\<rparr>;
          rxcan = rxcan\<lparr>rx_datalength := (rx_datalength rxcan)
                    (1 := spi_read ! 5 AND (DLC_BIT_3 OR DLC_BIT_2 OR DLC_BIT_1 OR DLC_BIT_0))\<rparr>;
          (rxcan, w) =
            (if spi_read ! 2 AND IDE_RECEIVED_EXTENDED_FRAME = IDE_RECEIVED_EXTENDED_FRAME then
               (let rxcan = rxcan\<lparr>rxid := (rxid rxcan)(1 := rx_extended_id spi_read)\<rparr>
                in if spi_read ! 5 AND RTR_RECEIVED_REMOTE_FRAME_REQUEST
                        = RTR_RECEIVED_REMOTE_FRAME_REQUEST
                   then (rxcan\<lparr>rxframetype :=
                           (rxframetype rxcan)(1 := RX_EXTENDED_REMOTE_FRAME)\<rparr>, w)
                   else
                     (let rxcan = rxcan\<lparr>rxframetype :=
                                    (rxframetype rxcan)(1 := RX_EXTENDED_DATA_FRAME)\<rparr>;
                          (m, w) = CAN_Control_Register_Read RXB1D0_REG (rx_memory_from 1 rxcan)
                                     (rx_datalength rxcan 1) w
                      in (rx_memory_put 1 m rxcan, w)))
             else
               (let rxcan = rxcan\<lparr>rxid := (rxid rxcan)(1 := rx_standard_id spi_read)\<rparr>
                in if spi_read ! 2 AND SRR_RECEIVED_STANDARD_REMOTE_REQUEST
                        = SRR_RECEIVED_STANDARD_REMOTE_REQUEST
                   then (rxcan\<lparr>rxframetype :=
                           (rxframetype rxcan)(1 := RX_STANDARD_REMOTE_FRAME)\<rparr>, w)
                   else
                     (let rxcan = rxcan\<lparr>rxframetype :=
                                    (rxframetype rxcan)(1 := RX_STANDARD_DATA_FRAME)\<rparr>;
                          (m, w) = CAN_Control_Register_Read RXB1D1_REG (rx_memory_from 1 rxcan)
                                     (rx_datalength rxcan 1) w
                      in (rx_memory_put 1 m rxcan, w))))
      in (spi_read, rxcan, w))"

definition CAN_Control_Read_CAN_Frame ::
  "u8 list \<Rightarrow> CAN_Control_RX \<Rightarrow> world \<Rightarrow> CAN_Control_RX \<times> world" where
  "CAN_Control_Read_CAN_Frame spi_read rxcan w =
     (let (spi_read, rxcan, w) =
            (if rxbuffernmbr rxcan AND RXB0 = RXB0 then Read_RXB0 spi_read rxcan w
             else (spi_read, rxcan, w))
      in if rxbuffernmbr rxcan AND RXB1 = RXB1
         then (let (spi_read, rxcan, w) = Read_RXB1 spi_read rxcan w in (rxcan, w))
         else (rxcan, w))"

section \<open>Transmit status and abort (can.c)\<close>

text \<open>
  The decoding ladder of \<open>CAN_Control_TX_CAN_Status\<close> on the byte held in the local
  \<open>spi_read\<close>.
\<close>

definition tx_state_of :: "u8 \<Rightarrow> u8" where
  "tx_state_of spi_read =
     (if spi_read AND TXREQ_PENDING = TXREQ_PENDING
         \<and> spi_read AND ABTF_MESSAGE_ABORTED = ABTF_TRANSMISSION_COMPLETE then
        (if spi_read AND (TXERR_BUS_ERROR OR MLOA_LOST_ARBITRATION)
              = (TXERR_BUS_ERROR OR MLOA_LOST_ARBITRATION)
         then TX_BUS_ERROR_AND_LOST_ARBITRATION
         else if spi_read AND TXERR_BUS_ERROR = TXERR_BUS_ERROR then TX_BUS_ERROR
         else if spi_read AND MLOA_LOST_ARBITRATION = MLOA_LOST_ARBITRATION
         then TX_LOST_ARBITRATION
         else TX_PENDING)
      else if spi_read AND ABTF_MESSAGE_ABORTED = ABTF_MESSAGE_ABORTED then TX_ABORTED
      else TX_SUCCESS)"

text \<open>
  \<open>spi_read\<close> is the value the uninitialised local happens to hold on entry. The
  \<open>switch\<close> reads the register for TXB0, TXB1 and TXB2 and does nothing otherwise.
\<close>

definition CAN_Control_TX_CAN_Status :: "u8 \<Rightarrow> u8 \<Rightarrow> world \<Rightarrow> u8 \<times> world" where
  "CAN_Control_TX_CAN_Status tx_buffer spi_read w =
     (let tx_state = TX_PENDING in
      if tx_buffer \<le> TXB2 then
        (let (buf, w) =
               (if tx_buffer = TXB0 then CAN_Control_Register_Read TXB0CTRL_REG [spi_read] 1 w
                else if tx_buffer = TXB1 then
                  CAN_Control_Register_Read TXB1CTRL_REG [spi_read] 1 w
                else if tx_buffer = TXB2 then
                  CAN_Control_Register_Read TXB2CTRL_REG [spi_read] 1 w
                else ([spi_read], w))
         in (tx_state_of (hd buf), w))
      else (tx_state, w))"

definition CAN_Control_TX_CAN_Abort :: "u8 \<Rightarrow> world \<Rightarrow> world" where
  "CAN_Control_TX_CAN_Abort tx_buffer w =
     (let w = (if tx_buffer AND TXB0 = TXB0
               then CAN_Control_Register_Bit TXB0CTRL_REG TXREQ_PENDING TXREQ_NO_PENDING w
               else w);
          w = (if tx_buffer AND TXB1 = TXB1
               then CAN_Control_Register_Bit TXB1CTRL_REG TXREQ_PENDING TXREQ_NO_PENDING w
               else w)
      in if tx_buffer AND TXB2 = TXB2
         then CAN_Control_Register_Bit TXB2CTRL_REG TXREQ_PENDING TXREQ_NO_PENDING w
         else w)"

definition CAN_Control_TX_CAN_Abort_All :: "world \<Rightarrow> world" where
  "CAN_Control_TX_CAN_Abort_All w =
     (let w = CAN_Control_Register_Bit CANCTRL_REG ABAT_REQ_ABORT_TX ABAT_REQ_ABORT_TX w
      in CAN_Control_Register_Bit CANCTRL_REG ABAT_REQ_ABORT_TX ABAT_TERMINATE_REQ_ABORT_TX w)"

section \<open>Interrupt and error flags (can.c)\<close>

definition CAN_Control_Enable_INT :: "u8 \<Rightarrow> world \<Rightarrow> world" where
  "CAN_Control_Enable_INT interrupts w =
     CAN_Control_Register_Write CANINTE_REG [interrupts] 1 w"

definition CAN_Control_INT_Status :: "u8 \<Rightarrow> world \<Rightarrow> u8 \<times> world" where
  "CAN_Control_INT_Status spi_read w =
     (let (buf, w) = CAN_Control_Register_Read CANINTF_REG [spi_read] 1 w in (hd buf, w))"

definition CAN_Control_Clear_INT_Status :: "u8 \<Rightarrow> world \<Rightarrow> world" where
  "CAN_Control_Clear_INT_Status interrupts w =
     CAN_Control_Register_Bit CANINTF_REG interrupts 0 w"

definition CAN_Control_ERR_Status :: "u8 \<Rightarrow> world \<Rightarrow> u8 \<times> world" where
  "CAN_Control_ERR_Status spi_read w =
     (let (buf, w) = CAN_Control_Register_Read EFLG_REG [spi_read] 1 w in (hd buf, w))"

definition CAN_Control_Clear_ERR_Status :: "u8 \<Rightarrow> world \<Rightarrow> world" where
  "CAN_Control_Clear_ERR_Status errors w =
     CAN_Control_Register_Bit EFLG_REG errors 0 w"

section \<open>Descriptions used in the statements\<close>

text \<open>
  \<open>on_bus w b\<close>: the handle selects one of the two SPI peripherals, \<open>b\<close>.
\<close>

definition on_bus :: "world \<Rightarrow> spi_bus \<Rightarrow> bool" where
  "on_bus w b = (spi (hcan w) = CAN_SPI1 \<and> b = SPI1 \<or> spi (hcan w) = CAN_SPI2 \<and> b = SPI2)"

text \<open>
  The chip-select-framed transactions of the specification's SPI command layer, as
  event sequences: opcode, address, payload, then the 50 microsecond settling delay.
\<close>

definition write_transaction :: "spi_bus \<Rightarrow> u8 \<Rightarrow> u8 list \<Rightarrow> event list" where
  "write_transaction b a bytes =
     [CS_Enable b, Write b [0x02], Write b [a], Write b bytes, CS_Disable b, Delay_us 50]"

definition read_transaction :: "spi_bus \<Rightarrow> u8 \<Rightarrow> nat \<Rightarrow> event list" where
  "read_transaction b a n =
     [CS_Enable b, Write b [0x03], Write b [a], Read b n, CS_Disable b, Delay_us 50]"

definition bit_modify_transaction :: "spi_bus \<Rightarrow> u8 \<Rightarrow> u8 \<Rightarrow> u8 \<Rightarrow> event list" where
  "bit_modify_transaction b a m d =
     [CS_Enable b, Write b [0x05], Write b [a], Write b [m], Write b [d], CS_Disable b,
      Delay_us 50]"

text \<open>
  What a call of \<open>CAN_Control_Register_Write\<close> and of \<open>CAN_Control_Register_Bit\<close>
  adds to the trace, for any transport selector \<open>sel\<close>.
\<close>

definition reg_write_events :: "u8 \<Rightarrow> u8 \<Rightarrow> u8 list \<Rightarrow> u8 \<Rightarrow> event list" where
  "reg_write_events sel a data sz =
     (let body = (\<lambda>b. [CS_Enable b, Write b [WRITE_INS], Write b [a]] @
                    (if unat sz \<le> length data then [Write b (take (unat sz) data)]
                     else [Write b data, Write_Beyond b (unat sz - length data)]) @
                    [CS_Disable b])
      in (if sel = CAN_SPI1 then body SPI1 else if sel = CAN_SPI2 then body SPI2 else [])
         @ [Delay_us 50])"

definition reg_bit_events :: "u8 \<Rightarrow> u8 \<Rightarrow> u8 \<Rightarrow> u8 \<Rightarrow> event list" where
  "reg_bit_events sel a m d =
     (let body = (\<lambda>b. [CS_Enable b, Write b [BIT_MODIFY_INS], Write b [a], Write b [m],
                       Write b [d], CS_Disable b])
      in (if sel = CAN_SPI1 then body SPI1 else if sel = CAN_SPI2 then body SPI2 else [])
         @ [Delay_us 50])"

text \<open>The event with which a transmit block ends: the wait chosen by the frame type.\<close>

definition wait_event :: "u8 \<Rightarrow> u8 \<Rightarrow> u32 \<Rightarrow> event" where
  "wait_event frametype d b =
     (if b = 0 then Division_By_Zero
      else if frametype = TX_EXTENDED_DATA_FRAME then
        Delay_us ((8 * ucast d + 64 + (53 + 8 * ucast d) div 4) * (1000000 div b))
      else if frametype = TX_STANDARD_DATA_FRAME then
        Delay_us ((8 * ucast d + 44 + (33 + 8 * ucast d) div 4) * (1000000 div b))
      else if frametype = TX_EXTENDED_REMOTE_FRAME then Delay_us (73 * (1000000 div b))
      else Delay_us (50 * (1000000 div b)))"

text \<open>The header bytes and the load events of a transmit block.\<close>

definition tx_header :: "nat \<Rightarrow> CAN_Control_TX \<Rightarrow> u8 list" where
  "tx_header n txcan =
     tx_id_registers (txframetype txcan n) (txid txcan n) @
     [if txframetype txcan n = TX_STANDARD_REMOTE_FRAME
         \<or> txframetype txcan n = TX_EXTENDED_REMOTE_FRAME
      then tx_datalength txcan n OR RTR_TRANSMIT_REMOTE_FRAME_REQUEST
      else tx_datalength txcan n]"

definition tx_load_events :: "u8 \<Rightarrow> nat \<Rightarrow> u8 \<Rightarrow> u8 \<Rightarrow> CAN_Control_TX \<Rightarrow> event list" where
  "tx_load_events sel n sidh_reg d0_reg txcan =
     reg_write_events sel sidh_reg (tx_header n txcan) 5 @
     (if txframetype txcan n = TX_STANDARD_REMOTE_FRAME
         \<or> txframetype txcan n = TX_EXTENDED_REMOTE_FRAME
      then []
      else reg_write_events sel d0_reg (tx_data txcan n) (tx_datalength txcan n))"

text \<open>Selection bit and control register of transmit buffer \<open>n\<close>.\<close>

definition tx_selected :: "CAN_Control_TX \<Rightarrow> nat \<Rightarrow> bool" where
  "tx_selected txcan n =
     (if n = 0 then txbuffernmbr txcan AND TXB0 = TXB0
      else if n = 1 then txbuffernmbr txcan AND TXB1 = TXB1
      else txbuffernmbr txcan AND TXB2 = TXB2)"

definition TXBnCTRL_REG :: "nat \<Rightarrow> u8" where
  "TXBnCTRL_REG n = (if n = 0 then TXB0CTRL_REG else if n = 1 then TXB1CTRL_REG
                      else TXB2CTRL_REG)"

definition TXBnSIDH_REG :: "nat \<Rightarrow> u8" where
  "TXBnSIDH_REG n = (if n = 0 then TXB0SIDH_REG else if n = 1 then TXB1SIDH_REG
                      else TXB2SIDH_REG)"

definition TXBnD0_REG :: "nat \<Rightarrow> u8" where
  "TXBnD0_REG n = (if n = 0 then TXB0D0_REG else if n = 1 then TXB1D0_REG else TXB2D0_REG)"

text \<open>
  The worst-case on-bus time of the specification (section 4.G, step 6), in
  microseconds, on natural numbers.
\<close>

definition spec_wait_us :: "u8 \<Rightarrow> nat \<Rightarrow> nat \<Rightarrow> nat" where
  "spec_wait_us frametype dlc baud =
     (if frametype = TX_STANDARD_DATA_FRAME then
        (8 * dlc + 44 + (33 + 8 * dlc) div 4) * (1000000 div baud)
      else if frametype = TX_EXTENDED_DATA_FRAME then
        (8 * dlc + 64 + (53 + 8 * dlc) div 4) * (1000000 div baud)
      else if frametype = TX_STANDARD_REMOTE_FRAME then 50 * (1000000 div baud)
      else 73 * (1000000 div baud))"

text \<open>
  The transmit status of the specification (section 4.G), on the bits of TXBnCTRL:
  ABTF is bit 6, MLOA bit 5, TXERR bit 4 and TXREQ bit 3.
\<close>

definition spec_tx_state :: "u8 \<Rightarrow> u8" where
  "spec_tx_state r =
     (let ABTF = bit r 6; MLOA = bit r 5; TXERR = bit r 4; TXREQ = bit r 3 in
      if ABTF then TX_ABORTED
      else if TXREQ then
        (if TXERR \<and> MLOA then TX_BUS_ERROR_AND_LOST_ARBITRATION
         else if TXERR then TX_BUS_ERROR
         else if MLOA then TX_LOST_ARBITRATION
         else TX_PENDING)
      else TX_SUCCESS)"

text \<open>
  The bit-timing table of the specification (section 4.E): baud rate to
  (BRP, PropSeg, PS1, PS2, SJW), and the register layout of can.h: PHSEG2 in CNF3
  bits 2:0, PHSEG1 in CNF2 bits 5:3, PRSEG in CNF2 bits 2:0, each stored as the
  segment length minus one; SJW minus one in CNF1 bits 7:6 and BRP in bits 5:0;
  BTLMODE is bit 7 of CNF2.
\<close>

definition spec_bit_timing :: "u32 \<Rightarrow> (nat \<times> nat \<times> nat \<times> nat \<times> nat) option" where
  "spec_bit_timing baud =
     (if baud = 500000 then Some (0, 2, 2, 3, 1)
      else if baud = 250000 then Some (0, 4, 5, 6, 1)
      else if baud = 125000 then Some (1, 3, 6, 6, 1)
      else if baud = 100000 then Some (1, 6, 6, 7, 1)
      else if baud = 50000 then Some (3, 6, 6, 7, 1)
      else None)"

definition spec_cnf_bytes :: "u8 \<Rightarrow> u8 \<Rightarrow> nat \<times> nat \<times> nat \<times> nat \<times> nat \<Rightarrow> u8 list" where
  "spec_cnf_bytes wakfil sam t =
     (case t of (brp, propseg, ps1, ps2, sjw) \<Rightarrow>
        [wakfil OR of_nat (ps2 - 1),
         push_bit 7 1 OR sam OR push_bit 3 (of_nat (ps1 - 1)) OR of_nat (propseg - 1),
         push_bit 6 (of_nat (sjw - 1)) OR of_nat brp])"

subsection \<open>Concrete inputs\<close>

text \<open>The first controller and the transmit descriptor of main.c.\<close>

definition CAN1_Handler :: CAN_Control_HandleTypeDef where
  "CAN1_Handler =
     \<lparr>spi = CAN_SPI1, opmode = NORMAL_OP_MODE, oneshot = 0, samplepoint = 0,
      wakeupfilter = 0, rxbufferopmode = RXB1_TURN_MASKS_FILTERS_OFF,
      rxbuffer0rollover = 0, baudrate = CAN_BAUD_125_KBPS\<rparr>"

definition world0 :: world where
  "world0 = \<lparr>hcan = CAN1_Handler, trace = [], miso = (\<lambda>k. 0), clocked = 0\<rparr>"

definition CAN1_TX :: CAN_Control_TX where
  "CAN1_TX =
     \<lparr>txbuffernmbr = TXB0 OR TXB1 OR TXB2,
      txframetype = (\<lambda>n. if n = 0 then TX_STANDARD_DATA_FRAME
                          else if n = 1 then TX_EXTENDED_DATA_FRAME
                          else TX_EXTENDED_REMOTE_FRAME),
      tx_datalength = (\<lambda>n. if n = 0 then 2 else if n = 1 then 5 else 8),
      tx_data = (\<lambda>n. if n = 0 then [0x0D, 0xD0, 0, 0, 0, 0, 0, 0]
                      else if n = 1 then [1, 2, 3, 4, 5, 0, 0, 0]
                      else [0, 0, 0, 0, 0, 0, 0, 0]),
      txid = (\<lambda>n. if n = 0 then 0x555 else if n = 1 then 0x1D0CAFC8 else 0x34D)\<rparr>"

text \<open>A standard data frame in TXB0 alone, with a data length of 9.\<close>

definition TX_dlc9 :: CAN_Control_TX where
  "TX_dlc9 = CAN1_TX\<lparr>txbuffernmbr := TXB0, tx_datalength := (\<lambda>n. 9)\<rparr>"

text \<open>
  An extended data frame in TXB1 and an extended remote frame in TXB2, each with a data
  length of 12.
\<close>

definition TX_dlc12 :: CAN_Control_TX where
  "TX_dlc12 = CAN1_TX\<lparr>txbuffernmbr := TXB1 OR TXB2, tx_datalength := (\<lambda>n. 12)\<rparr>"

text \<open>
  A bus that answers every read with: RXBnCTRL = 0, SIDH = 0xAA, SIDL = 0xA8
  (IDE set) or 0xA0 (IDE and SRR clear), EID8 = 0, EID0 = 0, DLC = 3, and data bytes 0.
\<close>

definition world_rx_ext :: world where
  "world_rx_ext =
     \<lparr>hcan = CAN1_Handler, trace = [],
      miso = (\<lambda>k. if k = 1 then 0xAA else if k = 2 then 0xA8 else if k = 5 then 3 else 0),
      clocked = 0\<rparr>"

definition world_rx_std :: world where
  "world_rx_std =
     \<lparr>hcan = CAN1_Handler, trace = [],
      miso = (\<lambda>k. if k = 1 then 0xAA else if k = 2 then 0xA0 else if k = 5 then 3 else 0),
      clocked = 0\<rparr>"

definition RX_rxb1 :: CAN_Control_RX where
  "RX_rxb1 =
     \<lparr>rxbuffernmbr = RXB1, rxframetype = (\<lambda>n. 0), rx_datalength = (\<lambda>n. 0),
      accfilter = (\<lambda>n. 0), rolloverstatus = 0,
      rx_data = (\<lambda>n i. 0), rxid = (\<lambda>n. 0)\<rparr>"

text \<open>
  The events of one transmit block: load, request, wait; and of the block of buffer
  \<open>n\<close>, empty when the buffer is not selected.
\<close>

definition txb_events :: "u8 \<Rightarrow> u32 \<Rightarrow> nat \<Rightarrow> u8 \<Rightarrow> u8 \<Rightarrow> u8 \<Rightarrow> CAN_Control_TX \<Rightarrow> event list"
  where
  "txb_events sel baud n sidh_reg d0_reg ctrl_reg txcan =
     tx_load_events sel n sidh_reg d0_reg txcan @
     reg_write_events sel ctrl_reg [TXREQ_PENDING] 1 @
     [wait_event (txframetype txcan n) (tx_datalength txcan n) baud]"

definition tx_segment :: "u8 \<Rightarrow> u32 \<Rightarrow> CAN_Control_TX \<Rightarrow> nat \<Rightarrow> event list" where
  "tx_segment sel baud txcan n =
     (if tx_selected txcan n
      then txb_events sel baud n (TXBnSIDH_REG n) (TXBnD0_REG n) (TXBnCTRL_REG n) txcan
      else [])"

text \<open>A handle that names no SPI peripheral.\<close>

definition world_no_spi :: world where
  "world_no_spi = world0\<lparr>hcan := CAN1_Handler\<lparr>spi := 7\<rparr>\<rparr>"

text \<open>
  The block of buffer \<open>n\<close> on the bus \<open>b\<close> with the request written out as the
  register write it is, and the block with the wait given by the specification's
  formula.
\<close>

definition request_segment :: "spi_bus \<Rightarrow> world \<Rightarrow> CAN_Control_TX \<Rightarrow> nat \<Rightarrow> event list" where
  "request_segment b w txcan n =
     (if tx_selected txcan n then
        tx_load_events (spi (hcan w)) n (TXBnSIDH_REG n) (TXBnD0_REG n) txcan @
        [CS_Enable b, Write b [WRITE_INS], Write b [TXBnCTRL_REG n], Write b [TXREQ_PENDING],
         CS_Disable b, Delay_us 50] @
        [wait_event (txframetype txcan n) (tx_datalength txcan n) (baudrate (hcan w))]
      else [])"

definition wait_segment :: "world \<Rightarrow> CAN_Control_TX \<Rightarrow> nat \<Rightarrow> event list" where
  "wait_segment w txcan n =
     (if tx_selected txcan n then
        tx_load_events (spi (hcan w)) n (TXBnSIDH_REG n) (TXBnD0_REG n) txcan @
        reg_write_events (spi (hcan w)) (TXBnCTRL_REG n) [TXREQ_PENDING] 1 @
        [Delay_us (of_nat (spec_wait_us (txframetype txcan n) (unat (tx_datalength txcan n))
                             (unat (baudrate (hcan w)))))]
      else [])"

text \<open>The descriptor of main.c with TXB0 alone selected.\<close>

definition TX_txb0 :: CAN_Control_TX where
  "TX_txb0 = CAN1_TX\<lparr>txbuffernmbr := TXB0\<rparr>"

text \<open>The TXBnCTRL register that belongs to a buffer number of the status query.\<close>

definition status_register :: "u8 \<Rightarrow> u8" where
  "status_register tx_buffer =
     (if tx_buffer = TXB0 then TXB0CTRL_REG
      else if tx_buffer = TXB1 then TXB1CTRL_REG
      else TXB2CTRL_REG)"

text \<open>A bus whose next byte is 0x18: TXREQ and TXERR set.\<close>

definition world_txerr :: world where
  "world_txerr = world0\<lparr>miso := (\<lambda>k. 0x18)\<rparr>"

text \<open>
  What a call of \<open>CAN_Control_Register_Read\<close> adds to the trace, for any transport
  selector \<open>sel\<close>.
\<close>

definition reg_read_events :: "u8 \<Rightarrow> u8 \<Rightarrow> u8 \<Rightarrow> event list" where
  "reg_read_events sel a sz =
     (let body = (\<lambda>b. [CS_Enable b, Write b [READ_INS], Write b [a], Read b (unat sz),
                       CS_Disable b])
      in (if sel = CAN_SPI1 then body SPI1 else if sel = CAN_SPI2 then body SPI2 else [])
         @ [Delay_us 50])"

text \<open>
  The state in which \<open>CAN_Control_Read_CAN_Frame\<close> starts on RXB1: the one it was
  called in, after the block for RXB0 when RXB0 is selected too.
\<close>

definition before_RXB1 :: "u8 list \<Rightarrow> CAN_Control_RX \<Rightarrow> world \<Rightarrow> world" where
  "before_RXB1 spi_read rxcan w =
     (if rxbuffernmbr rxcan AND RXB0 = RXB0 then snd (snd (Read_RXB0 spi_read rxcan w))
      else w)"

text \<open>
  A bus on which RXB1 holds what the transmitter of main.c wrote for its extended data
  frame: RXB1CTRL = 0, then the five header bytes of TXB1, then zeros.
\<close>

definition world_rx_loop :: world where
  "world_rx_loop =
     \<lparr>hcan = CAN1_Handler, trace = [],
      miso = (\<lambda>k. if k < 6 then (0 # tx_header 1 CAN1_TX) ! k else 0),
      clocked = 0\<rparr>"

section \<open>Traces of the command layer\<close>

lemma hcan_emit [simp]: "hcan (emit es w) = hcan w"
  by (simp add: emit_def)

lemma trace_emit [simp]: "trace (emit es w) = trace w @ es"
  by (simp add: emit_def)

lemma miso_emit [simp]: "miso (emit es w) = miso w"
  by (simp add: emit_def)

lemma clocked_emit [simp]: "clocked (emit es w) = clocked w"
  by (simp add: emit_def)

lemma emit_emit [simp]: "emit es2 (emit es1 w) = emit (es1 @ es2) w"
  by (simp add: emit_def)

lemma emit_Nil [simp]: "emit [] w = w"
  by (simp add: emit_def)

lemmas spi_defs =
  SPI_Init_def SPI_CS_Enable_def SPI_CS_Disable_def SPI_Write_def SPI_Read_def
  TIM3_Delay_us_def

lemma Register_Write_emit:
  "CAN_Control_Register_Write a data sz w = emit (reg_write_events (spi (hcan w)) a data sz) w"
  by (simp add: CAN_Control_Register_Write_def reg_write_events_def Let_def spi_defs)

lemma Register_Bit_emit:
  "CAN_Control_Register_Bit a m d w = emit (reg_bit_events (spi (hcan w)) a m d) w"
  by (simp add: CAN_Control_Register_Bit_def reg_bit_events_def Let_def spi_defs)

lemma reg_write_events_on_bus:
  assumes "on_bus w b" and "unat sz \<le> length data"
  shows "reg_write_events (spi (hcan w)) a data sz = write_transaction b a (take (unat sz) data)"
  using assms
  by (auto simp: on_bus_def reg_write_events_def write_transaction_def Let_def can_consts)

lemma reg_bit_events_on_bus:
  assumes "on_bus w b"
  shows "reg_bit_events (spi (hcan w)) a m d = bit_modify_transaction b a m d"
  using assms
  by (auto simp: on_bus_def reg_bit_events_def bit_modify_transaction_def Let_def can_consts)

lemma on_bus_emit [simp]: "on_bus (emit es w) b = on_bus w b"
  by (simp add: on_bus_def)

lemma Register_Read_on_bus:
  assumes "on_bus w b"
  shows "CAN_Control_Register_Read a data sz w =
           (store data (map (miso w) [clocked w ..< clocked w + unat sz]),
            w\<lparr>trace := trace w @ read_transaction b a (unat sz),
              clocked := clocked w + unat sz\<rparr>)"
  using assms
  by (auto simp: on_bus_def CAN_Control_Register_Read_def read_transaction_def Let_def
      spi_defs emit_def can_consts)

lemma Register_Read_off_bus:
  assumes "spi (hcan w) \<noteq> CAN_SPI1" and "spi (hcan w) \<noteq> CAN_SPI2"
  shows "CAN_Control_Register_Read a data sz w = (data, emit [Delay_us 50] w)"
  using assms by (simp add: CAN_Control_Register_Read_def Let_def spi_defs)

section \<open>The handle is never written\<close>

lemma hcan_Register_Write [simp]: "hcan (CAN_Control_Register_Write a data sz w) = hcan w"
  by (simp add: Register_Write_emit)

lemma hcan_Register_Bit [simp]: "hcan (CAN_Control_Register_Bit a m d w) = hcan w"
  by (simp add: Register_Bit_emit)

lemma hcan_Register_Read [simp]:
  "hcan (snd (CAN_Control_Register_Read a data sz w)) = hcan w"
  by (simp add: CAN_Control_Register_Read_def Let_def spi_defs)

lemma hcan_Reset [simp]: "hcan (CAN_Control_Reset w) = hcan w"
  by (simp add: CAN_Control_Reset_def Let_def spi_defs)

lemma hcan_Set_Op_Mode [simp]: "hcan (CAN_Control_Set_Op_Mode m w) = hcan w"
  by (simp add: CAN_Control_Set_Op_Mode_def Let_def)

lemma hcan_Set_Baud_Rate [simp]: "hcan (CAN_Control_Set_Baud_Rate r w) = hcan w"
  by (simp add: CAN_Control_Set_Baud_Rate_def Let_def)

lemma hcan_Set_RX_Mask [simp]: "hcan (CAN_Control_Set_RX_Mask hm w) = hcan w"
  by (simp add: CAN_Control_Set_RX_Mask_def Set_RX_Mask_n_def Let_def)

lemma hcan_Set_RX_Filter [simp]: "hcan (CAN_Control_Set_RX_Filter hf w) = hcan w"
  by (simp add: CAN_Control_Set_RX_Filter_def Set_RX_Filter_n_def Let_def)

lemma hcan_Init [simp]: "hcan (CAN_Control_Init w) = hcan w"
  by (simp add: CAN_Control_Init_def Let_def SPI_Init_def)

lemma hcan_WAIT [simp]:
  "hcan (WAIT_SEND_STANDARD_DATA_FRAME d b w) = hcan w"
  "hcan (WAIT_SEND_EXTENDED_DATA_FRAME d b w) = hcan w"
  "hcan (WAIT_SEND_STANDARD_REMOTE_FRAME b w) = hcan w"
  "hcan (WAIT_SEND_EXTENDED_REMOTE_FRAME b w) = hcan w"
  by (simp_all add: WAIT_SEND_STANDARD_DATA_FRAME_def WAIT_SEND_EXTENDED_DATA_FRAME_def
      WAIT_SEND_STANDARD_REMOTE_FRAME_def WAIT_SEND_EXTENDED_REMOTE_FRAME_def TIM3_Delay_us_def)

lemma hcan_Send_TXBn [simp]: "hcan (Send_TXBn n s d c txcan w) = hcan w"
  by (simp add: Send_TXBn_def Let_def)

lemma hcan_Send [simp]: "hcan (CAN_Control_Send_CAN_Frame txcan w) = hcan w"
  by (simp add: CAN_Control_Send_CAN_Frame_def Let_def)

lemma hcan_Read_RXB0 [simp]: "hcan (snd (snd (Read_RXB0 sr rx w))) = hcan w"
  by (simp add: Read_RXB0_def Let_def split_beta)

lemma hcan_Read_RXB1 [simp]: "hcan (snd (snd (Read_RXB1 sr rx w))) = hcan w"
  by (simp add: Read_RXB1_def Let_def split_beta)

lemma hcan_Read [simp]: "hcan (snd (CAN_Control_Read_CAN_Frame sr rx w)) = hcan w"
  by (simp add: CAN_Control_Read_CAN_Frame_def Let_def split_beta)

lemma hcan_TX_Status [simp]: "hcan (snd (CAN_Control_TX_CAN_Status b v w)) = hcan w"
  by (simp add: CAN_Control_TX_CAN_Status_def Let_def split_beta)

lemma hcan_Abort [simp]: "hcan (CAN_Control_TX_CAN_Abort b w) = hcan w"
  by (simp add: CAN_Control_TX_CAN_Abort_def Let_def)

lemma hcan_Abort_All [simp]: "hcan (CAN_Control_TX_CAN_Abort_All w) = hcan w"
  by (simp add: CAN_Control_TX_CAN_Abort_All_def Let_def)

lemma hcan_INT_ERR [simp]:
  "hcan (CAN_Control_Enable_INT i w) = hcan w"
  "hcan (snd (CAN_Control_INT_Status v w)) = hcan w"
  "hcan (CAN_Control_Clear_INT_Status i w) = hcan w"
  "hcan (snd (CAN_Control_ERR_Status v w)) = hcan w"
  "hcan (CAN_Control_Clear_ERR_Status i w) = hcan w"
  by (simp_all add: CAN_Control_Enable_INT_def CAN_Control_INT_Status_def
      CAN_Control_Clear_INT_Status_def CAN_Control_ERR_Status_def
      CAN_Control_Clear_ERR_Status_def split_beta)

text \<open>
  C9. Every driver operation returns the controller handle as it received it, all
  fields included; in particular the \<open>opmode\<close> field changes in no operation
  (\<open>CAN_Control_Set_Op_Mode\<close> writes CANCTRL and leaves the handle alone as well).
\<close>

theorem handle_preserved_by_every_operation:
  "hcan (CAN_Control_Init w) = hcan w
   \<and> hcan (CAN_Control_Reset w) = hcan w
   \<and> hcan (CAN_Control_Set_Op_Mode m w) = hcan w
   \<and> hcan (CAN_Control_Set_Baud_Rate r w) = hcan w
   \<and> hcan (CAN_Control_Set_RX_Mask hmask w) = hcan w
   \<and> hcan (CAN_Control_Set_RX_Filter hfilter w) = hcan w
   \<and> hcan (CAN_Control_Register_Write a data sz w) = hcan w
   \<and> hcan (snd (CAN_Control_Register_Read a data sz w)) = hcan w
   \<and> hcan (CAN_Control_Register_Bit a msk d w) = hcan w
   \<and> hcan (CAN_Control_Send_CAN_Frame txcan w) = hcan w
   \<and> hcan (snd (CAN_Control_Read_CAN_Frame spi_read rxcan w)) = hcan w
   \<and> hcan (snd (CAN_Control_TX_CAN_Status tx_buffer v w)) = hcan w
   \<and> hcan (CAN_Control_TX_CAN_Abort tx_buffer w) = hcan w
   \<and> hcan (CAN_Control_TX_CAN_Abort_All w) = hcan w
   \<and> hcan (CAN_Control_Enable_INT i w) = hcan w
   \<and> hcan (snd (CAN_Control_INT_Status v w)) = hcan w
   \<and> hcan (CAN_Control_Clear_INT_Status i w) = hcan w
   \<and> hcan (snd (CAN_Control_ERR_Status v w)) = hcan w
   \<and> hcan (CAN_Control_Clear_ERR_Status i w) = hcan w
   \<and> opmode (hcan (CAN_Control_Set_Op_Mode m w)) = opmode (hcan w)"
  by simp

section \<open>Reset\<close>

lemma Reset_on_bus:
  assumes "on_bus w b"
  shows "CAN_Control_Reset w =
           emit [CS_Enable b, Write b [0xC0], CS_Disable b, Delay_us 50, Delay_us 16] w"
  using assms
  by (auto simp: on_bus_def CAN_Control_Reset_def Let_def spi_defs GET_OST_def can_consts)

text \<open>
  C8, as amended. On a handle that selects SPI1 or SPI2, \<open>CAN_Control_Reset\<close> sends
  the one-byte RESET opcode 0xC0 in one chip-select frame, waits 50 microseconds and
  then waits the oscillator start-up time \<open>128000000 / OSC1_FREQ\<close> microseconds,
  which is 16 microseconds at 8 MHz.
\<close>

theorem reset_sequence:
  assumes "on_bus w b"
  shows "trace (CAN_Control_Reset w) =
           trace w @ [CS_Enable b, Write b [RESET_INS], CS_Disable b, Delay_us 50,
                      Delay_us (GET_OST OSC1_FREQ)]
         \<and> RESET_INS = 0xC0 \<and> unat (GET_OST OSC1_FREQ) = 128000000 div 8000000
         \<and> GET_OST OSC1_FREQ = 16"
  using assms by (simp add: Reset_on_bus GET_OST_def can_consts)

theorem reset_sequence_witness:
  "on_bus world0 SPI1
   \<and> trace (CAN_Control_Reset world0) =
       [CS_Enable SPI1, Write SPI1 [0xC0], CS_Disable SPI1, Delay_us 50, Delay_us 16]"
proof -
  have b: "on_bus world0 SPI1"
    by (simp add: on_bus_def world0_def CAN1_Handler_def)
  show ?thesis
    using b reset_sequence [OF b] by (simp add: world0_def can_consts)
qed

text \<open>
  C8 as stated fails: the start-up delay after a reset at 8 MHz is not 16 ms
  (16000 microseconds).
\<close>

theorem reset_ost_not_16_ms:
  "trace (CAN_Control_Reset world0) \<noteq>
     [CS_Enable SPI1, Write SPI1 [0xC0], CS_Disable SPI1, Delay_us 50, Delay_us 16000]"
  by (simp add: CAN_Control_Reset_def Let_def spi_defs GET_OST_def can_consts world0_def
      CAN1_Handler_def emit_def)

section \<open>Bit timing\<close>

text \<open>
  C6. For each of the five supported baud rates, on a handle that selects SPI1 or
  SPI2, \<open>CAN_Control_Set_Baud_Rate\<close> issues one write transaction of exactly three
  bytes CNF3, CNF2, CNF1 at the CNF3 address 0x28, and the bytes encode the row of
  the specification's table for that rate: CNF3 is the handle's wake-up-filter bits
  with PS2, CNF2 is BTLMODE with the handle's sample-point bits, PS1 and PropSeg,
  CNF1 is SJW with BRP.
\<close>

theorem baud_rate_writes_planner_table:
  assumes "on_bus w b" and "spec_bit_timing r = Some t"
  shows "trace (CAN_Control_Set_Baud_Rate r w) =
           trace w @ write_transaction b CNF3_REG
                       (spec_cnf_bytes (wakeupfilter (hcan w)) (samplepoint (hcan w)) t)
         \<and> length (spec_cnf_bytes (wakeupfilter (hcan w)) (samplepoint (hcan w)) t) = 3
         \<and> CNF3_REG = 0x28"
proof -
  from assms(2) consider
      "r = CAN_BAUD_500_KBPS" "t = (0, 2, 2, 3, 1)"
    | "r = CAN_BAUD_250_KBPS" "t = (0, 4, 5, 6, 1)"
    | "r = CAN_BAUD_125_KBPS" "t = (1, 3, 6, 6, 1)"
    | "r = CAN_BAUD_100_KBPS" "t = (1, 6, 6, 7, 1)"
    | "r = CAN_BAUD_50_KBPS" "t = (3, 6, 6, 7, 1)"
    by (auto simp: spec_bit_timing_def can_consts split: if_splits)
  then show ?thesis
  proof cases
    case 1
    then show ?thesis
      using assms(1)
      by (simp add: CAN_Control_Set_Baud_Rate_def Let_def Register_Write_emit
          reg_write_events_on_bus [OF assms(1)] spec_cnf_bytes_def)
         (simp add: can_consts)
  next
    case 2
    then show ?thesis
      using assms(1)
      by (simp add: CAN_Control_Set_Baud_Rate_def Let_def Register_Write_emit
          reg_write_events_on_bus [OF assms(1)] spec_cnf_bytes_def)
         (simp add: can_consts)
  next
    case 3
    then show ?thesis
      using assms(1)
      by (simp add: CAN_Control_Set_Baud_Rate_def Let_def Register_Write_emit
          reg_write_events_on_bus [OF assms(1)] spec_cnf_bytes_def)
         (simp add: can_consts)
  next
    case 4
    then show ?thesis
      using assms(1)
      by (simp add: CAN_Control_Set_Baud_Rate_def Let_def Register_Write_emit
          reg_write_events_on_bus [OF assms(1)] spec_cnf_bytes_def)
         (simp add: can_consts)
  next
    case 5
    then show ?thesis
      using assms(1)
      by (simp add: CAN_Control_Set_Baud_Rate_def Let_def Register_Write_emit
          reg_write_events_on_bus [OF assms(1)] spec_cnf_bytes_def)
         (simp add: can_consts)
  qed
qed

theorem baud_rate_writes_planner_table_witness:
  "on_bus world0 SPI1 \<and> spec_bit_timing 125000 = Some (1, 3, 6, 6, 1)
   \<and> trace (CAN_Control_Set_Baud_Rate 125000 world0) =
       [CS_Enable SPI1, Write SPI1 [0x02], Write SPI1 [0x28], Write SPI1 [0x05, 0xAA, 0x01],
        CS_Disable SPI1, Delay_us 50]"
proof -
  have b: "on_bus world0 SPI1"
    by (simp add: on_bus_def world0_def CAN1_Handler_def)
  have t: "spec_bit_timing 125000 = Some (1, 3, 6, 6, 1)"
    by (simp add: spec_bit_timing_def)
  show ?thesis
    using b t baud_rate_writes_planner_table [OF b t]
    by (simp add: world0_def CAN1_Handler_def write_transaction_def spec_cnf_bytes_def
        can_consts)
qed

section \<open>Traces of the transmitter\<close>

lemma length_tx_id_registers [simp]: "length (tx_id_registers ft v) = 4"
  by (simp add: tx_id_registers_def id_registers_def Let_def)

lemma WAIT_emit:
  "(if ft = TX_EXTENDED_DATA_FRAME then WAIT_SEND_EXTENDED_DATA_FRAME d b w
    else if ft = TX_STANDARD_DATA_FRAME then WAIT_SEND_STANDARD_DATA_FRAME d b w
    else if ft = TX_EXTENDED_REMOTE_FRAME then WAIT_SEND_EXTENDED_REMOTE_FRAME b w
    else WAIT_SEND_STANDARD_REMOTE_FRAME b w) = emit [wait_event ft d b] w"
  by (simp add: wait_event_def WAIT_SEND_STANDARD_DATA_FRAME_def
      WAIT_SEND_EXTENDED_DATA_FRAME_def WAIT_SEND_STANDARD_REMOTE_FRAME_def
      WAIT_SEND_EXTENDED_REMOTE_FRAME_def TIM3_Delay_us_def)

lemma header_update:
  "(tx_id_registers ft v @ [d])[4 := (tx_id_registers ft v @ [d]) ! 4 OR r]
     = tx_id_registers ft v @ [d OR r]"
  by (simp add: tx_id_registers_def id_registers_def Let_def)

lemma Send_TXBn_emit:
  "Send_TXBn n s d c txcan w =
     emit (txb_events (spi (hcan w)) (baudrate (hcan w)) n s d c txcan) w"
proof -
  have ctrl: "reg_write_events sel c (hdr[0 := TXREQ_PENDING]) 1
                = reg_write_events sel c [TXREQ_PENDING] 1"
    if "length hdr = 5" for hdr sel
    using that by (cases hdr) (simp_all add: reg_write_events_def Let_def)
  show ?thesis
    unfolding Send_TXBn_def Let_def txb_events_def tx_load_events_def tx_header_def
    by (simp add: Register_Write_emit WAIT_emit ctrl header_update split_beta)
qed

lemma Send_emit:
  "CAN_Control_Send_CAN_Frame txcan w =
     emit (tx_segment (spi (hcan w)) (baudrate (hcan w)) txcan 0 @
           tx_segment (spi (hcan w)) (baudrate (hcan w)) txcan 1 @
           tx_segment (spi (hcan w)) (baudrate (hcan w)) txcan 2) w"
  by (simp add: CAN_Control_Send_CAN_Frame_def Let_def Send_TXBn_emit tx_segment_def
      tx_selected_def TXBnSIDH_REG_def TXBnD0_REG_def TXBnCTRL_REG_def)

lemma txb_events_not_Nil: "txb_events sel baud n s d c txcan \<noteq> []"
  by (simp add: txb_events_def)

lemma tx_header_nth_4:
  "tx_header n txcan ! 4 =
     (if txframetype txcan n = TX_STANDARD_REMOTE_FRAME
         \<or> txframetype txcan n = TX_EXTENDED_REMOTE_FRAME
      then tx_datalength txcan n OR RTR_TRANSMIT_REMOTE_FRAME_REQUEST
      else tx_datalength txcan n)"
  by (simp add: tx_header_def nth_append)

lemma length_tx_header [simp]: "length (tx_header n txcan) = 5"
  by (simp add: tx_header_def)

section \<open>Invalid configuration\<close>

text \<open>
  C5, as amended. \<open>CAN_Control_Init\<close> with a transport selector other than CAN_SPI1
  and CAN_SPI2, \<open>CAN_Control_Set_Baud_Rate\<close> with a rate outside the five supported
  ones and \<open>CAN_Control_Set_Op_Mode\<close> with a mode outside the five enumerated ones
  return the state they were given: no SPI traffic and no delay.
  \<open>CAN_Control_Send_CAN_Frame\<close> has no check of the data length. Whatever the data
  lengths are, the call changes nothing but the trace, to which it appends the blocks
  of TXB0, TXB1 and TXB2 in this order, and for each of the three buffers alike:
  the block of a buffer that is not selected is empty; on SPI1 or SPI2 the block of a
  selected buffer is the five-byte header write at TXBnSIDH whose last byte is the data
  length as given (with RTR for a remote frame), for a data frame the write at TXBnD0
  of as many bytes as the data length says (running beyond the data when there are
  fewer), the write of TXREQ to TXBnCTRL, and the wait computed from the data length
  as given; with any other transport selector the block of a selected buffer carries
  no SPI traffic, only the settling delay of each of these writes and the wait.
\<close>

theorem invalid_configuration_behaviour:
  "(spi (hcan w1) \<noteq> CAN_SPI1 \<and> spi (hcan w1) \<noteq> CAN_SPI2 \<longrightarrow> CAN_Control_Init w1 = w1)
   \<and> (r \<notin> {CAN_BAUD_500_KBPS, CAN_BAUD_250_KBPS, CAN_BAUD_125_KBPS, CAN_BAUD_100_KBPS,
             CAN_BAUD_50_KBPS} \<longrightarrow> CAN_Control_Set_Baud_Rate r w2 = w2)
   \<and> (m \<notin> {NORMAL_OP_MODE, SLEEP_OP_MODE, LOOPBACK_OP_MODE, LISTEN_ONLY_OP_MODE,
             CONFIGURATION_OP_MODE} \<longrightarrow> CAN_Control_Set_Op_Mode m w3 = w3)
   \<and> CAN_Control_Send_CAN_Frame txcan w4 =
       w4\<lparr>trace := trace w4 @ tx_segment (spi (hcan w4)) (baudrate (hcan w4)) txcan 0
                              @ tx_segment (spi (hcan w4)) (baudrate (hcan w4)) txcan 1
                              @ tx_segment (spi (hcan w4)) (baudrate (hcan w4)) txcan 2\<rparr>
   \<and> (n < 3 \<and> on_bus w5 b \<and> tx_selected txcan5 n \<longrightarrow>
        tx_segment (spi (hcan w5)) (baudrate (hcan w5)) txcan5 n =
          [CS_Enable b, Write b [WRITE_INS], Write b [TXBnSIDH_REG n],
           Write b (tx_id_registers (txframetype txcan5 n) (txid txcan5 n) @
                    [if txframetype txcan5 n = TX_STANDARD_REMOTE_FRAME
                        \<or> txframetype txcan5 n = TX_EXTENDED_REMOTE_FRAME
                     then tx_datalength txcan5 n OR RTR_TRANSMIT_REMOTE_FRAME_REQUEST
                     else tx_datalength txcan5 n]),
           CS_Disable b, Delay_us 50] @
          (if txframetype txcan5 n = TX_STANDARD_REMOTE_FRAME
              \<or> txframetype txcan5 n = TX_EXTENDED_REMOTE_FRAME
           then []
           else [CS_Enable b, Write b [WRITE_INS], Write b [TXBnD0_REG n]] @
                (if unat (tx_datalength txcan5 n) \<le> length (tx_data txcan5 n)
                 then [Write b (take (unat (tx_datalength txcan5 n)) (tx_data txcan5 n))]
                 else [Write b (tx_data txcan5 n),
                       Write_Beyond b (unat (tx_datalength txcan5 n)
                                        - length (tx_data txcan5 n))]) @
                [CS_Disable b, Delay_us 50]) @
          [CS_Enable b, Write b [WRITE_INS], Write b [TXBnCTRL_REG n],
           Write b [TXREQ_PENDING], CS_Disable b, Delay_us 50,
           wait_event (txframetype txcan5 n) (tx_datalength txcan5 n) (baudrate (hcan w5))])
   \<and> (k < 3 \<and> spi (hcan w6) \<noteq> CAN_SPI1 \<and> spi (hcan w6) \<noteq> CAN_SPI2
        \<and> tx_selected txcan6 k \<longrightarrow>
        tx_segment (spi (hcan w6)) (baudrate (hcan w6)) txcan6 k =
          [Delay_us 50] @
          (if txframetype txcan6 k = TX_STANDARD_REMOTE_FRAME
              \<or> txframetype txcan6 k = TX_EXTENDED_REMOTE_FRAME
           then [] else [Delay_us 50]) @
          [Delay_us 50,
           wait_event (txframetype txcan6 k) (tx_datalength txcan6 k) (baudrate (hcan w6))])
   \<and> (j < 3 \<and> \<not> tx_selected txcan7 j \<longrightarrow> tx_segment sel7 baud7 txcan7 j = [])"
proof (intro conjI impI)
  assume "spi (hcan w1) \<noteq> CAN_SPI1 \<and> spi (hcan w1) \<noteq> CAN_SPI2"
  then show "CAN_Control_Init w1 = w1"
    by (simp add: CAN_Control_Init_def)
next
  assume "r \<notin> {CAN_BAUD_500_KBPS, CAN_BAUD_250_KBPS, CAN_BAUD_125_KBPS, CAN_BAUD_100_KBPS,
                CAN_BAUD_50_KBPS}"
  then show "CAN_Control_Set_Baud_Rate r w2 = w2"
    by (simp add: CAN_Control_Set_Baud_Rate_def)
next
  assume "m \<notin> {NORMAL_OP_MODE, SLEEP_OP_MODE, LOOPBACK_OP_MODE, LISTEN_ONLY_OP_MODE,
                CONFIGURATION_OP_MODE}"
  then show "CAN_Control_Set_Op_Mode m w3 = w3"
    by (simp add: CAN_Control_Set_Op_Mode_def)
next
  show "CAN_Control_Send_CAN_Frame txcan w4 =
       w4\<lparr>trace := trace w4 @ tx_segment (spi (hcan w4)) (baudrate (hcan w4)) txcan 0
                              @ tx_segment (spi (hcan w4)) (baudrate (hcan w4)) txcan 1
                              @ tx_segment (spi (hcan w4)) (baudrate (hcan w4)) txcan 2\<rparr>"
    by (simp only: Send_emit emit_def)
next
  assume a: "n < 3 \<and> on_bus w5 b \<and> tx_selected txcan5 n"
  then have s: "spi (hcan w5) = CAN_SPI1 \<and> b = SPI1 \<or> spi (hcan w5) = CAN_SPI2 \<and> b = SPI2"
    by (simp add: on_bus_def)
  from a have sel: "tx_selected txcan5 n" by simp
  show "tx_segment (spi (hcan w5)) (baudrate (hcan w5)) txcan5 n =
          [CS_Enable b, Write b [WRITE_INS], Write b [TXBnSIDH_REG n],
           Write b (tx_id_registers (txframetype txcan5 n) (txid txcan5 n) @
                    [if txframetype txcan5 n = TX_STANDARD_REMOTE_FRAME
                        \<or> txframetype txcan5 n = TX_EXTENDED_REMOTE_FRAME
                     then tx_datalength txcan5 n OR RTR_TRANSMIT_REMOTE_FRAME_REQUEST
                     else tx_datalength txcan5 n]),
           CS_Disable b, Delay_us 50] @
          (if txframetype txcan5 n = TX_STANDARD_REMOTE_FRAME
              \<or> txframetype txcan5 n = TX_EXTENDED_REMOTE_FRAME
           then []
           else [CS_Enable b, Write b [WRITE_INS], Write b [TXBnD0_REG n]] @
                (if unat (tx_datalength txcan5 n) \<le> length (tx_data txcan5 n)
                 then [Write b (take (unat (tx_datalength txcan5 n)) (tx_data txcan5 n))]
                 else [Write b (tx_data txcan5 n),
                       Write_Beyond b (unat (tx_datalength txcan5 n)
                                        - length (tx_data txcan5 n))]) @
                [CS_Disable b, Delay_us 50]) @
          [CS_Enable b, Write b [WRITE_INS], Write b [TXBnCTRL_REG n],
           Write b [TXREQ_PENDING], CS_Disable b, Delay_us 50,
           wait_event (txframetype txcan5 n) (tx_datalength txcan5 n) (baudrate (hcan w5))]"
    using s
    by (auto simp: sel tx_segment_def txb_events_def tx_load_events_def tx_header_def
        reg_write_events_def Let_def CAN_SPI1_def CAN_SPI2_def)
next
  assume a: "k < 3 \<and> spi (hcan w6) \<noteq> CAN_SPI1 \<and> spi (hcan w6) \<noteq> CAN_SPI2
        \<and> tx_selected txcan6 k"
  then show "tx_segment (spi (hcan w6)) (baudrate (hcan w6)) txcan6 k =
          [Delay_us 50] @
          (if txframetype txcan6 k = TX_STANDARD_REMOTE_FRAME
              \<or> txframetype txcan6 k = TX_EXTENDED_REMOTE_FRAME
           then [] else [Delay_us 50]) @
          [Delay_us 50,
           wait_event (txframetype txcan6 k) (tx_datalength txcan6 k) (baudrate (hcan w6))]"
    by (simp add: tx_segment_def txb_events_def tx_load_events_def reg_write_events_def Let_def)
next
  assume "j < 3 \<and> \<not> tx_selected txcan7 j"
  then show "tx_segment sel7 baud7 txcan7 j = []"
    by (simp add: tx_segment_def)
qed

theorem invalid_configuration_behaviour_witness:
  "spi (hcan world_no_spi) \<noteq> CAN_SPI1 \<and> spi (hcan world_no_spi) \<noteq> CAN_SPI2
   \<and> CAN_Control_Init world_no_spi = world_no_spi
   \<and> (1000000 :: u32) \<notin> {CAN_BAUD_500_KBPS, CAN_BAUD_250_KBPS, CAN_BAUD_125_KBPS,
                           CAN_BAUD_100_KBPS, CAN_BAUD_50_KBPS}
   \<and> CAN_Control_Set_Baud_Rate 1000000 world0 = world0
   \<and> (5 :: u8) \<notin> {NORMAL_OP_MODE, SLEEP_OP_MODE, LOOPBACK_OP_MODE, LISTEN_ONLY_OP_MODE,
                    CONFIGURATION_OP_MODE}
   \<and> CAN_Control_Set_Op_Mode 5 world0 = world0
   \<and> CAN_Control_Send_CAN_Frame TX_dlc12 world0 =
       world0\<lparr>trace := tx_segment CAN_SPI1 125000 TX_dlc12 0 @
                         tx_segment CAN_SPI1 125000 TX_dlc12 1 @
                         tx_segment CAN_SPI1 125000 TX_dlc12 2\<rparr>
   \<and> (0 :: nat) < 3 \<and> \<not> tx_selected TX_dlc12 0
   \<and> tx_segment CAN_SPI1 125000 TX_dlc12 0 = []
   \<and> (1 :: nat) < 3 \<and> on_bus world0 SPI1 \<and> tx_selected TX_dlc12 1
   \<and> tx_segment CAN_SPI1 125000 TX_dlc12 1 =
       [CS_Enable SPI1, Write SPI1 [0x02], Write SPI1 [0x41],
        Write SPI1 [0xE8, 0x68, 0xAF, 0xC8, 12], CS_Disable SPI1, Delay_us 50,
        CS_Enable SPI1, Write SPI1 [0x02], Write SPI1 [0x46],
        Write SPI1 [1, 2, 3, 4, 5, 0, 0, 0], Write_Beyond SPI1 4, CS_Disable SPI1,
        Delay_us 50,
        CS_Enable SPI1, Write SPI1 [0x02], Write SPI1 [0x40], Write SPI1 [0x08],
        CS_Disable SPI1, Delay_us 50,
        Delay_us 1576]
   \<and> tx_selected TX_dlc9 0
   \<and> tx_segment (spi (hcan world_no_spi)) 125000 TX_dlc9 0 =
       [Delay_us 50, Delay_us 50, Delay_us 50, Delay_us 1136]"
proof -
  have h1: "spi (hcan world_no_spi) \<noteq> CAN_SPI1 \<and> spi (hcan world_no_spi) \<noteq> CAN_SPI2"
    by (simp add: world_no_spi_def can_consts)
  have h2: "(1000000 :: u32) \<notin> {CAN_BAUD_500_KBPS, CAN_BAUD_250_KBPS, CAN_BAUD_125_KBPS,
                                  CAN_BAUD_100_KBPS, CAN_BAUD_50_KBPS}"
    by (simp add: can_consts)
  have h3: "(5 :: u8) \<notin> {NORMAL_OP_MODE, SLEEP_OP_MODE, LOOPBACK_OP_MODE,
                           LISTEN_ONLY_OP_MODE, CONFIGURATION_OP_MODE}"
    by (simp add: can_consts)
  have w: "spi (hcan world0) = CAN_SPI1" "baudrate (hcan world0) = 125000"
    "trace world0 = []" "baudrate (hcan world_no_spi) = 125000"
    by (simp_all add: world0_def world_no_spi_def CAN1_Handler_def can_consts)
  have h5: "(1 :: nat) < 3 \<and> on_bus world0 SPI1 \<and> tx_selected TX_dlc12 1"
    by (simp add: on_bus_def w tx_selected_def TX_dlc12_def CAN1_TX_def can_consts)
  have h6: "(0 :: nat) < 3 \<and> spi (hcan world_no_spi) \<noteq> CAN_SPI1
            \<and> spi (hcan world_no_spi) \<noteq> CAN_SPI2 \<and> tx_selected TX_dlc9 0"
    using h1 by (simp add: tx_selected_def TX_dlc9_def CAN1_TX_def can_consts)
  have h7: "(0 :: nat) < 3 \<and> \<not> tx_selected TX_dlc12 0"
    by (simp add: tx_selected_def TX_dlc12_def CAN1_TX_def can_consts)
  have d: "tx_datalength TX_dlc12 1 = 12" "txframetype TX_dlc12 1 = TX_EXTENDED_DATA_FRAME"
    "txid TX_dlc12 1 = 0x1D0CAFC8" "tx_data TX_dlc12 1 = [1, 2, 3, 4, 5, 0, 0, 0]"
    "tx_datalength TX_dlc9 0 = 9" "txframetype TX_dlc9 0 = TX_STANDARD_DATA_FRAME"
    by (simp_all add: TX_dlc12_def TX_dlc9_def CAN1_TX_def)
  note t = invalid_configuration_behaviour
             [where ?w1.0 = world_no_spi and r = 1000000 and ?w2.0 = world0 and m = 5
               and ?w3.0 = world0 and txcan = TX_dlc12 and ?w4.0 = world0
               and n = 1 and ?w5.0 = world0 and b = SPI1 and ?txcan5.0 = TX_dlc12
               and k = 0 and ?w6.0 = world_no_spi and ?txcan6.0 = TX_dlc9
               and j = 0 and ?txcan7.0 = TX_dlc12 and ?sel7.0 = CAN_SPI1
               and ?baud7.0 = 125000]
  from t h1 have c1: "CAN_Control_Init world_no_spi = world_no_spi" by blast
  from t h2 have c2: "CAN_Control_Set_Baud_Rate 1000000 world0 = world0" by blast
  from t h3 have c3: "CAN_Control_Set_Op_Mode 5 world0 = world0" by blast
  from t have c4: "CAN_Control_Send_CAN_Frame TX_dlc12 world0 =
       world0\<lparr>trace := tx_segment CAN_SPI1 125000 TX_dlc12 0 @
                         tx_segment CAN_SPI1 125000 TX_dlc12 1 @
                         tx_segment CAN_SPI1 125000 TX_dlc12 2\<rparr>"
    by (simp only: w append_Nil)
  from t h7 have c7: "tx_segment CAN_SPI1 125000 TX_dlc12 0 = []" by blast
  from t h5 have "tx_segment (spi (hcan world0)) (baudrate (hcan world0)) TX_dlc12 1 =
          [CS_Enable SPI1, Write SPI1 [WRITE_INS], Write SPI1 [TXBnSIDH_REG 1],
           Write SPI1 (tx_id_registers (txframetype TX_dlc12 1) (txid TX_dlc12 1) @
                    [if txframetype TX_dlc12 1 = TX_STANDARD_REMOTE_FRAME
                        \<or> txframetype TX_dlc12 1 = TX_EXTENDED_REMOTE_FRAME
                     then tx_datalength TX_dlc12 1 OR RTR_TRANSMIT_REMOTE_FRAME_REQUEST
                     else tx_datalength TX_dlc12 1]),
           CS_Disable SPI1, Delay_us 50] @
          (if txframetype TX_dlc12 1 = TX_STANDARD_REMOTE_FRAME
              \<or> txframetype TX_dlc12 1 = TX_EXTENDED_REMOTE_FRAME
           then []
           else [CS_Enable SPI1, Write SPI1 [WRITE_INS], Write SPI1 [TXBnD0_REG 1]] @
                (if unat (tx_datalength TX_dlc12 1) \<le> length (tx_data TX_dlc12 1)
                 then [Write SPI1 (take (unat (tx_datalength TX_dlc12 1)) (tx_data TX_dlc12 1))]
                 else [Write SPI1 (tx_data TX_dlc12 1),
                       Write_Beyond SPI1 (unat (tx_datalength TX_dlc12 1)
                                        - length (tx_data TX_dlc12 1))]) @
                [CS_Disable SPI1, Delay_us 50]) @
          [CS_Enable SPI1, Write SPI1 [WRITE_INS], Write SPI1 [TXBnCTRL_REG 1],
           Write SPI1 [TXREQ_PENDING], CS_Disable SPI1, Delay_us 50,
           wait_event (txframetype TX_dlc12 1) (tx_datalength TX_dlc12 1)
             (baudrate (hcan world0))]"
    by blast
  then have c5: "tx_segment CAN_SPI1 125000 TX_dlc12 1 =
       [CS_Enable SPI1, Write SPI1 [0x02], Write SPI1 [0x41],
        Write SPI1 [0xE8, 0x68, 0xAF, 0xC8, 12], CS_Disable SPI1, Delay_us 50,
        CS_Enable SPI1, Write SPI1 [0x02], Write SPI1 [0x46],
        Write SPI1 [1, 2, 3, 4, 5, 0, 0, 0], Write_Beyond SPI1 4, CS_Disable SPI1,
        Delay_us 50,
        CS_Enable SPI1, Write SPI1 [0x02], Write SPI1 [0x40], Write SPI1 [0x08],
        CS_Disable SPI1, Delay_us 50,
        Delay_us 1576]"
    unfolding w d
    by (simp add: tx_id_registers_def id_registers_def wait_event_def Let_def
        TXBnSIDH_REG_def TXBnD0_REG_def TXBnCTRL_REG_def can_consts)
  from t h6 have "tx_segment (spi (hcan world_no_spi)) (baudrate (hcan world_no_spi)) TX_dlc9 0 =
          [Delay_us 50] @
          (if txframetype TX_dlc9 0 = TX_STANDARD_REMOTE_FRAME
              \<or> txframetype TX_dlc9 0 = TX_EXTENDED_REMOTE_FRAME
           then [] else [Delay_us 50]) @
          [Delay_us 50,
           wait_event (txframetype TX_dlc9 0) (tx_datalength TX_dlc9 0)
             (baudrate (hcan world_no_spi))]"
    by blast
  then have c6: "tx_segment (spi (hcan world_no_spi)) 125000 TX_dlc9 0 =
       [Delay_us 50, Delay_us 50, Delay_us 50, Delay_us 1136]"
    unfolding w d by (simp add: wait_event_def can_consts)
  from h1 h2 h3 h5 h6 h7 c1 c2 c3 c4 c5 c6 c7 show ?thesis
    by (intro conjI) (elim conjE, assumption)+
qed

text \<open>
  C5 as stated fails: a standard data frame in TXB0 with a data length of 9 is sent
  like any other; the call changes the state.
\<close>

theorem send_dlc9_is_not_a_no_op:
  "8 < unat (tx_datalength TX_dlc9 0)
   \<and> trace (CAN_Control_Send_CAN_Frame TX_dlc9 world0) =
       [CS_Enable SPI1, Write SPI1 [0x02], Write SPI1 [0x31],
        Write SPI1 [0xAA, 0xA0, 0, 0, 9], CS_Disable SPI1, Delay_us 50,
        CS_Enable SPI1, Write SPI1 [0x02], Write SPI1 [0x36],
        Write SPI1 [0x0D, 0xD0, 0, 0, 0, 0, 0, 0], Write_Beyond SPI1 1, CS_Disable SPI1,
        Delay_us 50,
        CS_Enable SPI1, Write SPI1 [0x02], Write SPI1 [0x30], Write SPI1 [0x08],
        CS_Disable SPI1, Delay_us 50,
        Delay_us 1136]
   \<and> CAN_Control_Send_CAN_Frame TX_dlc9 world0 \<noteq> world0"
proof -
  have d: "tx_datalength TX_dlc9 0 = 9" "txframetype TX_dlc9 0 = TX_STANDARD_DATA_FRAME"
    "txid TX_dlc9 0 = 0x555" "tx_data TX_dlc9 0 = [0x0D, 0xD0, 0, 0, 0, 0, 0, 0]"
    "txbuffernmbr TX_dlc9 = TXB0"
    by (simp_all add: TX_dlc9_def CAN1_TX_def)
  have w: "spi (hcan world0) = 0" "baudrate (hcan world0) = 125000" "trace world0 = []"
    by (simp_all add: world0_def CAN1_Handler_def can_consts)
  have t: "trace (CAN_Control_Send_CAN_Frame TX_dlc9 world0) =
       [CS_Enable SPI1, Write SPI1 [0x02], Write SPI1 [0x31],
        Write SPI1 [0xAA, 0xA0, 0, 0, 9], CS_Disable SPI1, Delay_us 50,
        CS_Enable SPI1, Write SPI1 [0x02], Write SPI1 [0x36],
        Write SPI1 [0x0D, 0xD0, 0, 0, 0, 0, 0, 0], Write_Beyond SPI1 1, CS_Disable SPI1,
        Delay_us 50,
        CS_Enable SPI1, Write SPI1 [0x02], Write SPI1 [0x30], Write SPI1 [0x08],
        CS_Disable SPI1, Delay_us 50,
        Delay_us 1136]"
    by (simp add: Send_emit tx_segment_def tx_selected_def txb_events_def tx_load_events_def
        tx_header_def tx_id_registers_def reg_write_events_def wait_event_def Let_def
        TXBnSIDH_REG_def TXBnD0_REG_def TXBnCTRL_REG_def d w can_consts)
  then have "trace (CAN_Control_Send_CAN_Frame TX_dlc9 world0) \<noteq> trace world0"
    by (simp add: w)
  then have "CAN_Control_Send_CAN_Frame TX_dlc9 world0 \<noteq> world0" by auto
  with t show ?thesis by (simp add: d)
qed

section \<open>Requesting transmission\<close>

text \<open>
  C3, as amended. On a handle that selects SPI1 or SPI2, every selected transmit
  buffer is requested, after its load, by one register WRITE transaction (opcode
  0x02, not the BIT MODIFY opcode 0x05) of the single byte 0x08 to TXBnCTRL: the byte
  has TXREQ set and every other bit, the TXP priority bits included, clear.
\<close>

theorem send_requests_by_register_write:
  assumes "on_bus w b"
  shows "trace (CAN_Control_Send_CAN_Frame txcan w) =
           trace w @ request_segment b w txcan 0 @ request_segment b w txcan 1
                   @ request_segment b w txcan 2
         \<and> WRITE_INS = 0x02 \<and> WRITE_INS \<noteq> BIT_MODIFY_INS
         \<and> TXREQ_PENDING = 0x08 \<and> TXREQ_PENDING AND (TXP_BIT_1 OR TXP_BIT_0) = 0"
proof -
  have "reg_write_events (spi (hcan w)) a [TXREQ_PENDING] 1 =
          [CS_Enable b, Write b [WRITE_INS], Write b [a], Write b [TXREQ_PENDING],
           CS_Disable b, Delay_us 50]" for a
    using reg_write_events_on_bus [OF assms, of 1 "[TXREQ_PENDING]" a]
    by (simp add: write_transaction_def can_consts)
  then have "tx_segment (spi (hcan w)) (baudrate (hcan w)) txcan n = request_segment b w txcan n"
    for n
    by (simp add: tx_segment_def request_segment_def txb_events_def)
  then show ?thesis
    by (simp add: Send_emit) (simp add: can_consts)
qed

theorem send_requests_by_register_write_witness:
  "on_bus world0 SPI1
   \<and> trace (CAN_Control_Send_CAN_Frame TX_txb0 world0) =
       [CS_Enable SPI1, Write SPI1 [0x02], Write SPI1 [0x31],
        Write SPI1 [0xAA, 0xA0, 0, 0, 2], CS_Disable SPI1, Delay_us 50,
        CS_Enable SPI1, Write SPI1 [0x02], Write SPI1 [0x36],
        Write SPI1 [0x0D, 0xD0], CS_Disable SPI1, Delay_us 50,
        CS_Enable SPI1, Write SPI1 [0x02], Write SPI1 [0x30], Write SPI1 [0x08],
        CS_Disable SPI1, Delay_us 50,
        Delay_us 576]"
proof -
  have b: "on_bus world0 SPI1"
    by (simp add: on_bus_def world0_def CAN1_Handler_def)
  have d: "tx_datalength TX_txb0 0 = 2" "txframetype TX_txb0 0 = TX_STANDARD_DATA_FRAME"
    "txid TX_txb0 0 = 0x555" "tx_data TX_txb0 0 = [0x0D, 0xD0, 0, 0, 0, 0, 0, 0]"
    "txbuffernmbr TX_txb0 = TXB0"
    by (simp_all add: TX_txb0_def CAN1_TX_def)
  have w: "spi (hcan world0) = 0" "baudrate (hcan world0) = 125000" "trace world0 = []"
    by (simp_all add: world0_def CAN1_Handler_def can_consts)
  show ?thesis
    using b send_requests_by_register_write [OF b, of TX_txb0]
    by (simp add: request_segment_def tx_selected_def tx_load_events_def
        tx_header_def tx_id_registers_def reg_write_events_def wait_event_def Let_def
        TXBnSIDH_REG_def TXBnD0_REG_def TXBnCTRL_REG_def d w can_consts)
qed

text \<open>
  C3 as stated fails: sending the three frames of main.c puts no BIT MODIFY opcode on
  the bus, and the byte written to TXB0CTRL is a whole-register write of 0x08.
\<close>

theorem send_issues_no_bit_modify:
  "Write SPI1 [BIT_MODIFY_INS] \<notin> set (trace (CAN_Control_Send_CAN_Frame CAN1_TX world0))
   \<and> take 6 (drop 12 (trace (CAN_Control_Send_CAN_Frame CAN1_TX world0))) =
       [CS_Enable SPI1, Write SPI1 [WRITE_INS], Write SPI1 [TXB0CTRL_REG], Write SPI1 [0x08],
        CS_Disable SPI1, Delay_us 50]"
proof -
  have d: "tx_datalength CAN1_TX = (\<lambda>n. if n = 0 then 2 else if n = 1 then 5 else 8)"
    "txframetype CAN1_TX = (\<lambda>n. if n = 0 then TX_STANDARD_DATA_FRAME
                          else if n = 1 then TX_EXTENDED_DATA_FRAME
                          else TX_EXTENDED_REMOTE_FRAME)"
    "txid CAN1_TX = (\<lambda>n. if n = 0 then 0x555 else if n = 1 then 0x1D0CAFC8 else 0x34D)"
    "tx_data CAN1_TX = (\<lambda>n. if n = 0 then [0x0D, 0xD0, 0, 0, 0, 0, 0, 0]
                      else if n = 1 then [1, 2, 3, 4, 5, 0, 0, 0]
                      else [0, 0, 0, 0, 0, 0, 0, 0])"
    "txbuffernmbr CAN1_TX = TXB0 OR TXB1 OR TXB2"
    by (simp_all add: CAN1_TX_def)
  have w: "spi (hcan world0) = 0" "baudrate (hcan world0) = 125000" "trace world0 = []"
    by (simp_all add: world0_def CAN1_Handler_def can_consts)
  show ?thesis
    by (simp add: Send_emit tx_segment_def tx_selected_def txb_events_def tx_load_events_def
        tx_header_def tx_id_registers_def id_registers_def reg_write_events_def
        wait_event_def Let_def
        TXBnSIDH_REG_def TXBnD0_REG_def TXBnCTRL_REG_def d w can_consts)
qed

section \<open>Waiting for the frame\<close>

lemma unat_ucast_u8_u32: "unat (ucast d :: u32) = unat d" for d :: u8
  by (simp add: unsigned_ucast_eq take_bit_nat_eq_self_iff)
     (rule order_less_trans [OF unsigned_less], simp)

lemma unat_wait_product:
  fixes a q :: u32
  assumes "unat a \<le> 2627" and "unat q \<le> 1000000"
  shows "unat (a * q) = unat a * unat q"
proof -
  have "unat a * unat q \<le> 2627 * 1000000"
    using assms by (rule mult_le_mono)
  then have "unat a * unat q < 2 ^ LENGTH(32)" by simp
  then show ?thesis by (simp add: unat_mult_lem [THEN iffD1])
qed

lemma unat_bit_time:
  fixes b :: u32
  assumes "b \<noteq> 0"
  shows "unat (1000000 div b) = 1000000 div unat b" and "unat (1000000 div b) \<le> 1000000"
proof -
  show q: "unat (1000000 div b) = 1000000 div unat b" by (simp add: unat_div)
  show "unat (1000000 div b) \<le> 1000000" by (simp add: q div_le_dividend)
qed

lemma spec_wait_us_bound:
  "spec_wait_us ft (unat (d :: u8)) (unat (b :: u32)) < 2 ^ 32"
proof -
  have d: "unat d < 256" using unsigned_less [of d, where 'a = nat] by simp
  have q: "1000000 div unat b \<le> 1000000" by (simp add: div_le_dividend)
  have "k \<le> 2627 \<Longrightarrow> k * (1000000 div unat b) < 2 ^ 32" for k
  proof -
    assume "k \<le> 2627"
    from this q have "k * (1000000 div unat b) \<le> 2627 * 1000000" by (rule mult_le_mono)
    then show ?thesis by simp
  qed
  then show ?thesis
    using d by (simp add: spec_wait_us_def)
qed

lemma wait_event_spec:
  assumes "b \<noteq> 0"
    and "ft \<in> {TX_STANDARD_DATA_FRAME, TX_EXTENDED_DATA_FRAME, TX_STANDARD_REMOTE_FRAME,
               TX_EXTENDED_REMOTE_FRAME}"
  shows "wait_event ft d b = Delay_us (of_nat (spec_wait_us ft (unat d) (unat b)))"
proof -
  have d: "unat d < 256" using unsigned_less [of d, where 'a = nat] by simp
  have ud: "unat (ucast d :: u32) = unat d" by (rule unat_ucast_u8_u32)
  note q = unat_bit_time [OF assms(1)]
  have std: "unat (8 * ucast d + 44 + (33 + 8 * ucast d) div 4 :: u32)
      = 8 * unat d + 44 + (33 + 8 * unat d) div 4"
    using d by (simp add: unat_word_ariths unat_div ud)
  have ext: "unat (8 * ucast d + 64 + (53 + 8 * ucast d) div 4 :: u32)
      = 8 * unat d + 64 + (53 + 8 * unat d) div 4"
    using d by (simp add: unat_word_ariths unat_div ud)
  have e1: "unat ((8 * ucast d + 44 + (33 + 8 * ucast d) div 4) * (1000000 div b) :: u32)
      = (8 * unat d + 44 + (33 + 8 * unat d) div 4) * (1000000 div unat b)"
    using d by (subst unat_wait_product) (simp_all add: std q)
  have e2: "unat ((8 * ucast d + 64 + (53 + 8 * ucast d) div 4) * (1000000 div b) :: u32)
      = (8 * unat d + 64 + (53 + 8 * unat d) div 4) * (1000000 div unat b)"
    using d by (subst unat_wait_product) (simp_all add: ext q)
  have e3: "unat (50 * (1000000 div b) :: u32) = 50 * (1000000 div unat b)"
    by (subst unat_wait_product) (simp_all add: q)
  have e4: "unat (73 * (1000000 div b) :: u32) = 73 * (1000000 div unat b)"
    by (subst unat_wait_product) (simp_all add: q)
  have w: "x = of_nat k" if "unat x = k" for x :: u32 and k
    using that by auto
  from assms(2) consider "ft = TX_STANDARD_DATA_FRAME" | "ft = TX_EXTENDED_DATA_FRAME"
    | "ft = TX_STANDARD_REMOTE_FRAME" | "ft = TX_EXTENDED_REMOTE_FRAME" by auto
  then show ?thesis
  proof cases
    case 1
    then show ?thesis
      using assms(1) by (simp add: wait_event_def spec_wait_us_def w [OF e1] can_consts)
  next
    case 2
    then show ?thesis
      using assms(1) by (simp add: wait_event_def spec_wait_us_def w [OF e2] can_consts)
  next
    case 3
    then show ?thesis
      using assms(1) by (simp add: wait_event_def spec_wait_us_def w [OF e3] can_consts)
  next
    case 4
    then show ?thesis
      using assms(1) by (simp add: wait_event_def spec_wait_us_def w [OF e4] can_consts)
  qed
qed

text \<open>
  C7. With a non-zero baud rate in the handle and each selected buffer holding one of
  the four frame types, \<open>CAN_Control_Send_CAN_Frame\<close> handles the selected buffers in
  the order 0, 1, 2, and for each one the write of TXREQ to TXBnCTRL is followed
  directly by one delay of exactly the specification's worst-case time in
  microseconds; the 32-bit computation never wraps, whatever the data length byte and
  the baud rate are.
\<close>

theorem send_waits_worst_case_time:
  assumes "baudrate (hcan w) \<noteq> 0"
    and "\<forall>n<3. tx_selected txcan n \<longrightarrow>
           txframetype txcan n \<in> {TX_STANDARD_DATA_FRAME, TX_EXTENDED_DATA_FRAME,
                                   TX_STANDARD_REMOTE_FRAME, TX_EXTENDED_REMOTE_FRAME}"
  shows "trace (CAN_Control_Send_CAN_Frame txcan w) =
           trace w @ wait_segment w txcan 0 @ wait_segment w txcan 1 @ wait_segment w txcan 2
         \<and> (\<forall>n. spec_wait_us (txframetype txcan n) (unat (tx_datalength txcan n))
                   (unat (baudrate (hcan w))) < 2 ^ 32)"
proof -
  have "tx_segment (spi (hcan w)) (baudrate (hcan w)) txcan n = wait_segment w txcan n"
    if "n < 3" for n
    using that assms
    by (simp add: tx_segment_def wait_segment_def txb_events_def wait_event_spec)
  then have "trace (CAN_Control_Send_CAN_Frame txcan w) =
           trace w @ wait_segment w txcan 0 @ wait_segment w txcan 1 @ wait_segment w txcan 2"
    by (simp add: Send_emit)
  moreover have "\<forall>n. spec_wait_us (txframetype txcan n) (unat (tx_datalength txcan n))
                   (unat (baudrate (hcan w))) < 2 ^ 32"
    by (intro allI spec_wait_us_bound)
  ultimately show ?thesis by (intro conjI)
qed

theorem send_waits_worst_case_time_witness:
  "baudrate (hcan world0) \<noteq> 0
   \<and> txframetype CAN1_TX 0 = TX_STANDARD_DATA_FRAME
   \<and> txframetype CAN1_TX 1 = TX_EXTENDED_DATA_FRAME
   \<and> txframetype CAN1_TX 2 = TX_EXTENDED_REMOTE_FRAME
   \<and> trace (CAN_Control_Send_CAN_Frame CAN1_TX world0) =
       wait_segment world0 CAN1_TX 0 @ wait_segment world0 CAN1_TX 1
         @ wait_segment world0 CAN1_TX 2
   \<and> last (wait_segment world0 CAN1_TX 0) = Delay_us 576
   \<and> last (wait_segment world0 CAN1_TX 1) = Delay_us 1016
   \<and> last (wait_segment world0 CAN1_TX 2) = Delay_us 584"
proof -
  have h1: "baudrate (hcan world0) \<noteq> 0"
    by (simp add: world0_def CAN1_Handler_def can_consts)
  have h2: "\<forall>n<3. tx_selected CAN1_TX n \<longrightarrow>
         txframetype CAN1_TX n \<in> {TX_STANDARD_DATA_FRAME, TX_EXTENDED_DATA_FRAME,
                                   TX_STANDARD_REMOTE_FRAME, TX_EXTENDED_REMOTE_FRAME}"
    by (simp add: CAN1_TX_def)
  have s: "tx_selected CAN1_TX 0" "tx_selected CAN1_TX 1" "tx_selected CAN1_TX 2"
    by (simp_all add: tx_selected_def CAN1_TX_def can_consts)
  have l: "last (wait_segment world0 CAN1_TX 0) = Delay_us 576"
    "last (wait_segment world0 CAN1_TX 1) = Delay_us 1016"
    "last (wait_segment world0 CAN1_TX 2) = Delay_us 584"
    by (simp_all add: wait_segment_def s)
       (simp_all add: spec_wait_us_def tx_selected_def CAN1_TX_def world0_def
          CAN1_Handler_def can_consts)
  have t: "trace world0 = []" by (simp add: world0_def)
  have f: "txframetype CAN1_TX 0 = TX_STANDARD_DATA_FRAME"
    "txframetype CAN1_TX 1 = TX_EXTENDED_DATA_FRAME"
    "txframetype CAN1_TX 2 = TX_EXTENDED_REMOTE_FRAME"
    by (simp_all add: CAN1_TX_def)
  have "trace (CAN_Control_Send_CAN_Frame CAN1_TX world0) =
       wait_segment world0 CAN1_TX 0 @ wait_segment world0 CAN1_TX 1
         @ wait_segment world0 CAN1_TX 2"
    using send_waits_worst_case_time [OF h1 h2] by (simp add: t)
  with h1 f l show ?thesis by (intro conjI)
qed

section \<open>Transmit status\<close>

lemma and_pow2_eq_iff_bit: "(r AND 2 ^ n = 2 ^ n) = bit r n" if "n < 8" for r :: u8
proof
  assume "r AND 2 ^ n = 2 ^ n"
  then have "bit (r AND 2 ^ n) n = bit (2 ^ n :: u8) n" by simp
  with that show "bit r n" by (simp add: bit_and_iff bit_exp_iff)
next
  assume "bit r n"
  then show "r AND 2 ^ n = 2 ^ n"
    by (intro bit_eqI) (auto simp: bit_and_iff bit_exp_iff)
qed

lemma and_or_eq_iff: "(r AND (a OR b) = (a OR b)) = (r AND a = a \<and> r AND b = b)"
  for r a b :: u8
  by (auto simp: bit_eq_iff bit_and_iff bit_or_iff)

lemma status_bits:
  fixes r :: u8
  shows "(r AND TXREQ_PENDING = TXREQ_PENDING) = bit r 3"
    and "(r AND ABTF_MESSAGE_ABORTED = ABTF_MESSAGE_ABORTED) = bit r 6"
    and "(r AND ABTF_MESSAGE_ABORTED = ABTF_TRANSMISSION_COMPLETE) = (\<not> bit r 6)"
    and "(r AND TXERR_BUS_ERROR = TXERR_BUS_ERROR) = bit r 4"
    and "(r AND MLOA_LOST_ARBITRATION = MLOA_LOST_ARBITRATION) = bit r 5"
    and "(r AND (TXERR_BUS_ERROR OR MLOA_LOST_ARBITRATION)
            = (TXERR_BUS_ERROR OR MLOA_LOST_ARBITRATION)) = (bit r 4 \<and> bit r 5)"
proof -
  show "(r AND TXREQ_PENDING = TXREQ_PENDING) = bit r 3"
    using and_pow2_eq_iff_bit [of 3 r] by (simp add: can_consts)
  show "(r AND ABTF_MESSAGE_ABORTED = ABTF_MESSAGE_ABORTED) = bit r 6"
    using and_pow2_eq_iff_bit [of 6 r] by (simp add: can_consts)
  show "(r AND ABTF_MESSAGE_ABORTED = ABTF_TRANSMISSION_COMPLETE) = (\<not> bit r 6)"
    using and_exp_eq_0_iff_not_bit [of r 6] by (simp add: can_consts)
  show 4: "(r AND TXERR_BUS_ERROR = TXERR_BUS_ERROR) = bit r 4"
    using and_pow2_eq_iff_bit [of 4 r] by (simp add: can_consts)
  show 5: "(r AND MLOA_LOST_ARBITRATION = MLOA_LOST_ARBITRATION) = bit r 5"
    using and_pow2_eq_iff_bit [of 5 r] by (simp add: can_consts)
  show "(r AND (TXERR_BUS_ERROR OR MLOA_LOST_ARBITRATION)
            = (TXERR_BUS_ERROR OR MLOA_LOST_ARBITRATION)) = (bit r 4 \<and> bit r 5)"
    unfolding and_or_eq_iff 4 5 ..
qed

lemma tx_state_of_spec: "tx_state_of r = spec_tx_state r"
  unfolding tx_state_of_def spec_tx_state_def Let_def status_bits by auto

lemma TX_Status_on_bus:
  assumes "on_bus w b" and "tx_buffer \<in> {TXB0, TXB1, TXB2}"
  shows "CAN_Control_TX_CAN_Status tx_buffer v w =
           (tx_state_of (miso w (clocked w)),
            w\<lparr>trace := trace w @ read_transaction b (status_register tx_buffer) 1,
              clocked := clocked w + 1\<rparr>)"
proof -
  have le: "tx_buffer \<le> TXB2"
    using assms(2) by (auto simp: can_consts)
  have rd: "CAN_Control_Register_Read a [v] 1 w =
              ([miso w (clocked w)],
               w\<lparr>trace := trace w @ read_transaction b a 1, clocked := clocked w + 1\<rparr>)" for a
    using Register_Read_on_bus [OF assms(1), of a "[v]" 1] by (simp add: store_def)
  show ?thesis
    using assms(2) le
    by (auto simp: CAN_Control_TX_CAN_Status_def Let_def rd status_register_def can_consts)
qed

text \<open>
  C2. On a handle that selects SPI1 or SPI2 and for the buffer numbers TXB0, TXB1 and
  TXB2, \<open>CAN_Control_TX_CAN_Status\<close> reads one byte in a READ transaction at the
  buffer's TXBnCTRL address and returns the specification's decoding of that byte:
  aborted when ABTF is set; with TXREQ set and ABTF clear, bus error and lost
  arbitration when TXERR and MLOA are both set, bus error for TXERR alone, lost
  arbitration for MLOA alone, pending for neither; success in every other case.
\<close>

theorem tx_status_decodes_TXBnCTRL:
  assumes "on_bus w b" and "tx_buffer \<in> {TXB0, TXB1, TXB2}"
  shows "fst (CAN_Control_TX_CAN_Status tx_buffer v w) = spec_tx_state (miso w (clocked w))
         \<and> trace (snd (CAN_Control_TX_CAN_Status tx_buffer v w)) =
             trace w @ read_transaction b (status_register tx_buffer) 1"
  by (simp add: TX_Status_on_bus [OF assms] tx_state_of_spec)

theorem tx_status_decodes_TXBnCTRL_witness:
  "on_bus world_txerr SPI1 \<and> TXB1 \<in> {TXB0, TXB1, TXB2}
   \<and> fst (CAN_Control_TX_CAN_Status TXB1 0 world_txerr) = TX_BUS_ERROR
   \<and> trace (snd (CAN_Control_TX_CAN_Status TXB1 0 world_txerr)) =
       [CS_Enable SPI1, Write SPI1 [0x03], Write SPI1 [0x40], Read SPI1 1, CS_Disable SPI1,
        Delay_us 50]"
proof -
  have b: "on_bus world_txerr SPI1"
    by (simp add: on_bus_def world_txerr_def world0_def CAN1_Handler_def)
  have t: "TXB1 \<in> {TXB0, TXB1, TXB2}" by simp
  have s: "spec_tx_state 0x18 = TX_BUS_ERROR"
    by (simp add: spec_tx_state_def can_consts)
  show ?thesis
    using b t tx_status_decodes_TXBnCTRL [OF b t, of 0]
    by (simp add: world_txerr_def world0_def s read_transaction_def status_register_def
        can_consts)
qed

text \<open>
  C10. For the buffer numbers 0x00 and 0x03 the guard \<open>tx_buffer \<le> TXB2\<close> passes
  and no case of the \<open>switch\<close> reads the register: the function touches neither bus
  nor timer and returns the decoding of whatever the uninitialised local \<open>spi_read\<close>
  holds, which can be success, aborted or pending. For every buffer number above 0x04
  it touches neither bus nor timer and returns TX_PENDING, which is 0x00. For TXB0,
  TXB1 and TXB2 on SPI1 or SPI2 the result does not depend on the uninitialised local.
\<close>

theorem tx_status_outside_valid_buffers:
  "(tx_buffer = 0x00 \<or> tx_buffer = 0x03 \<longrightarrow>
      tx_buffer \<le> TXB2 \<and> CAN_Control_TX_CAN_Status tx_buffer v w = (tx_state_of v, w))
   \<and> tx_state_of 0x00 = TX_SUCCESS \<and> tx_state_of 0x40 = TX_ABORTED
   \<and> tx_state_of 0x08 = TX_PENDING
   \<and> (0x04 < tx_buffer2 \<longrightarrow> CAN_Control_TX_CAN_Status tx_buffer2 v2 w2 = (TX_PENDING, w2))
   \<and> TX_PENDING = 0x00
   \<and> (on_bus w3 b \<and> tx_buffer3 \<in> {TXB0, TXB1, TXB2} \<longrightarrow>
        CAN_Control_TX_CAN_Status tx_buffer3 v3 w3 = CAN_Control_TX_CAN_Status tx_buffer3 v4 w3)"
proof (intro conjI impI)
  assume a: "tx_buffer = 0x00 \<or> tx_buffer = 0x03"
  then show "tx_buffer \<le> TXB2" by (auto simp: can_consts)
  from a show "CAN_Control_TX_CAN_Status tx_buffer v w = (tx_state_of v, w)"
    by (auto simp: CAN_Control_TX_CAN_Status_def Let_def can_consts)
next
  show "tx_state_of 0x00 = TX_SUCCESS" by (simp add: tx_state_of_def can_consts)
  show "tx_state_of 0x40 = TX_ABORTED" by (simp add: tx_state_of_def can_consts)
  show "tx_state_of 0x08 = TX_PENDING" by (simp add: tx_state_of_def can_consts)
  show "TX_PENDING = 0x00" by (simp add: can_consts)
next
  assume "0x04 < tx_buffer2"
  then have "\<not> tx_buffer2 \<le> TXB2" by (simp add: can_consts not_le)
  then show "CAN_Control_TX_CAN_Status tx_buffer2 v2 w2 = (TX_PENDING, w2)"
    by (simp add: CAN_Control_TX_CAN_Status_def Let_def)
next
  assume a: "on_bus w3 b \<and> tx_buffer3 \<in> {TXB0, TXB1, TXB2}"
  then show "CAN_Control_TX_CAN_Status tx_buffer3 v3 w3
               = CAN_Control_TX_CAN_Status tx_buffer3 v4 w3"
    by (simp add: TX_Status_on_bus [of w3 b tx_buffer3])
qed

theorem tx_status_outside_valid_buffers_witness:
  "((0x03 :: u8) = 0x00 \<or> (0x03 :: u8) = 0x03)
   \<and> CAN_Control_TX_CAN_Status 0x03 0x40 world0 = (TX_ABORTED, world0)
   \<and> CAN_Control_TX_CAN_Status 0x03 0x00 world0 = (TX_SUCCESS, world0)
   \<and> (0x04 :: u8) < 0x05
   \<and> CAN_Control_TX_CAN_Status 0x05 0x40 world0 = (0x00, world0)
   \<and> on_bus world0 SPI1 \<and> TXB0 \<in> {TXB0, TXB1, TXB2}
   \<and> CAN_Control_TX_CAN_Status TXB0 0x40 world0 = CAN_Control_TX_CAN_Status TXB0 0x00 world0"
proof -
  have h1: "(0x03 :: u8) = 0x00 \<or> (0x03 :: u8) = 0x03" by simp
  have h2: "(0x04 :: u8) < 0x05" by simp
  have h3: "on_bus world0 SPI1 \<and> TXB0 \<in> {TXB0, TXB1, TXB2}"
    by (simp add: on_bus_def world0_def CAN1_Handler_def)
  note t1 = tx_status_outside_valid_buffers
              [where tx_buffer = "0x03" and v = "0x40" and w = world0
                 and ?tx_buffer2.0 = "0x05" and ?v2.0 = "0x40" and ?w2.0 = world0
                 and ?w3.0 = world0 and b = SPI1 and ?tx_buffer3.0 = TXB0
                 and ?v3.0 = "0x40" and ?v4.0 = "0x00"]
  note t2 = tx_status_outside_valid_buffers
              [where tx_buffer = "0x03" and v = "0x00" and w = world0
                 and ?tx_buffer2.0 = "0x05" and ?v2.0 = "0x40" and ?w2.0 = world0
                 and ?w3.0 = world0 and b = SPI1 and ?tx_buffer3.0 = TXB0
                 and ?v3.0 = "0x40" and ?v4.0 = "0x00"]
  show ?thesis
    using h1 h2 h3 t1 t2 by simp
qed

section \<open>Reading RXB1\<close>

lemma trace_Register_Read:
  "trace (snd (CAN_Control_Register_Read a data sz w))
     = trace w @ reg_read_events (spi (hcan w)) a sz"
  by (simp add: CAN_Control_Register_Read_def reg_read_events_def Let_def spi_defs emit_def)

lemma miso_Register_Read [simp]:
  "miso (snd (CAN_Control_Register_Read a data sz w)) = miso w"
  by (simp add: CAN_Control_Register_Read_def Let_def spi_defs emit_def)

lemma reg_read_events_on_bus:
  assumes "on_bus w b"
  shows "reg_read_events (spi (hcan w)) a sz = read_transaction b a (unat sz)"
  using assms
  by (auto simp: on_bus_def reg_read_events_def read_transaction_def Let_def can_consts)

lemma header_Register_Read:
  assumes "on_bus w b" and "k < 6"
  shows "fst (CAN_Control_Register_Read a data 6 w) ! k = miso w (clocked w + k)"
  using assms by (simp add: Register_Read_on_bus store_def nth_append)

lemma rx_memory_put_fields [simp]:
  "rxbuffernmbr (rx_memory_put n m rx) = rxbuffernmbr rx"
  "rxframetype (rx_memory_put n m rx) = rxframetype rx"
  "rx_datalength (rx_memory_put n m rx) = rx_datalength rx"
  "accfilter (rx_memory_put n m rx) = accfilter rx"
  "rolloverstatus (rx_memory_put n m rx) = rolloverstatus rx"
  by (simp_all add: rx_memory_put_def Let_def)

lemma rxbuffernmbr_Read_RXB0 [simp]:
  "rxbuffernmbr (fst (snd (Read_RXB0 sr rx w))) = rxbuffernmbr rx"
  by (simp add: Read_RXB0_def Let_def split_beta)

lemma Read_RXB1_trace:
  assumes "on_bus w b"
  shows "trace (snd (snd (Read_RXB1 sr rx w))) =
           trace w @ read_transaction b RXB1CTRL_REG 6 @
           (if miso w (clocked w + 2) AND IDE_RECEIVED_EXTENDED_FRAME
                 = IDE_RECEIVED_EXTENDED_FRAME
            then (if miso w (clocked w + 5) AND RTR_RECEIVED_REMOTE_FRAME_REQUEST
                       = RTR_RECEIVED_REMOTE_FRAME_REQUEST
                  then []
                  else read_transaction b RXB1D0_REG (unat (miso w (clocked w + 5) AND 0x0F)))
            else (if miso w (clocked w + 2) AND SRR_RECEIVED_STANDARD_REMOTE_REQUEST
                       = SRR_RECEIVED_STANDARD_REMOTE_REQUEST
                  then []
                  else read_transaction b RXB1D1_REG (unat (miso w (clocked w + 5) AND 0x0F))))"
proof -
  have h: "fst (CAN_Control_Register_Read RXB1CTRL_REG sr 6 w) ! 2 = miso w (clocked w + 2)"
    "fst (CAN_Control_Register_Read RXB1CTRL_REG sr 6 w) ! 5 = miso w (clocked w + 5)"
    using assms by (simp_all add: header_Register_Read)
  have b': "on_bus (snd (CAN_Control_Register_Read RXB1CTRL_REG sr 6 w)) b"
    using assms by (simp add: on_bus_def)
  have m: "DLC_BIT_3 OR DLC_BIT_2 OR DLC_BIT_1 OR DLC_BIT_0 = (0x0F :: u8)"
    by (simp add: can_consts)
  show ?thesis
    unfolding Read_RXB1_def Let_def split_beta
    by (simp add: h m trace_Register_Read reg_read_events_on_bus [OF assms]
        reg_read_events_on_bus [OF b'] del: hcan_Register_Read)
qed

text \<open>
  C4. On a handle that selects SPI1 or SPI2, when \<open>CAN_Control_Read_CAN_Frame\<close>
  processes RXB1 it first reads the six bytes at RXB1CTRL. If they show an extended
  data frame (IDE set in SIDL, RTR clear in DLC) the payload is read in one READ
  transaction starting at RXB1D0 (0x76); if they show a standard data frame (IDE and
  SRR clear in SIDL) it is read starting at RXB1D1 (0x77). In both cases the number
  of bytes read is the low nibble of the DLC byte.
\<close>

theorem rxb1_payload_read:
  assumes "on_bus w b" and "rxbuffernmbr rxcan AND RXB1 = RXB1"
    and "w1 = before_RXB1 spi_read rxcan w"
    and "sidl = miso w1 (clocked w1 + 2)" and "dlc = miso w1 (clocked w1 + 5)"
  shows "(sidl AND IDE_RECEIVED_EXTENDED_FRAME = IDE_RECEIVED_EXTENDED_FRAME
            \<and> dlc AND RTR_RECEIVED_REMOTE_FRAME_REQUEST \<noteq> RTR_RECEIVED_REMOTE_FRAME_REQUEST
          \<longrightarrow> trace (snd (CAN_Control_Read_CAN_Frame spi_read rxcan w)) =
                trace w1 @ read_transaction b RXB1CTRL_REG 6
                         @ read_transaction b RXB1D0_REG (unat (dlc AND 0x0F)))
         \<and> (sidl AND IDE_RECEIVED_EXTENDED_FRAME \<noteq> IDE_RECEIVED_EXTENDED_FRAME
              \<and> sidl AND SRR_RECEIVED_STANDARD_REMOTE_REQUEST
                   \<noteq> SRR_RECEIVED_STANDARD_REMOTE_REQUEST
            \<longrightarrow> trace (snd (CAN_Control_Read_CAN_Frame spi_read rxcan w)) =
                  trace w1 @ read_transaction b RXB1CTRL_REG 6
                           @ read_transaction b RXB1D1_REG (unat (dlc AND 0x0F)))
         \<and> RXB1D0_REG = 0x76 \<and> RXB1D1_REG = 0x77"
proof -
  have b1: "on_bus w1 b"
    using assms(1) by (simp add: assms(3) before_RXB1_def on_bus_def)
  have "snd (CAN_Control_Read_CAN_Frame spi_read rxcan w) =
          snd (snd (Read_RXB1
            (fst (if rxbuffernmbr rxcan AND RXB0 = RXB0 then Read_RXB0 spi_read rxcan w
                  else (spi_read, rxcan, w)))
            (fst (snd (if rxbuffernmbr rxcan AND RXB0 = RXB0 then Read_RXB0 spi_read rxcan w
                       else (spi_read, rxcan, w))))
            w1))"
    using assms(2)
    by (simp add: CAN_Control_Read_CAN_Frame_def Let_def split_beta assms(3) before_RXB1_def)
  then show ?thesis
    by (simp add: Read_RXB1_trace [OF b1] assms(4,5)) (simp add: can_consts)
qed

theorem rxb1_payload_read_witness:
  "on_bus world_rx_ext SPI1 \<and> rxbuffernmbr RX_rxb1 AND RXB1 = RXB1
   \<and> miso world_rx_ext 2 AND IDE_RECEIVED_EXTENDED_FRAME = IDE_RECEIVED_EXTENDED_FRAME
   \<and> miso world_rx_ext 5 AND RTR_RECEIVED_REMOTE_FRAME_REQUEST
        \<noteq> RTR_RECEIVED_REMOTE_FRAME_REQUEST
   \<and> trace (snd (CAN_Control_Read_CAN_Frame [0, 0, 0, 0, 0, 0] RX_rxb1 world_rx_ext)) =
       read_transaction SPI1 0x70 6 @ read_transaction SPI1 0x76 3
   \<and> on_bus world_rx_std SPI1
   \<and> miso world_rx_std 2 AND IDE_RECEIVED_EXTENDED_FRAME \<noteq> IDE_RECEIVED_EXTENDED_FRAME
   \<and> miso world_rx_std 2 AND SRR_RECEIVED_STANDARD_REMOTE_REQUEST
        \<noteq> SRR_RECEIVED_STANDARD_REMOTE_REQUEST
   \<and> trace (snd (CAN_Control_Read_CAN_Frame [0, 0, 0, 0, 0, 0] RX_rxb1 world_rx_std)) =
       read_transaction SPI1 0x70 6 @ read_transaction SPI1 0x77 3"
proof -
  have be: "on_bus world_rx_ext SPI1" and bs: "on_bus world_rx_std SPI1"
    by (simp_all add: on_bus_def world_rx_ext_def world_rx_std_def CAN1_Handler_def)
  have r: "rxbuffernmbr RX_rxb1 AND RXB1 = RXB1"
    by (simp add: RX_rxb1_def can_consts)
  have we: "before_RXB1 [0, 0, 0, 0, 0, 0] RX_rxb1 world_rx_ext = world_rx_ext"
    and ws: "before_RXB1 [0, 0, 0, 0, 0, 0] RX_rxb1 world_rx_std = world_rx_std"
    by (simp_all add: before_RXB1_def RX_rxb1_def can_consts)
  have ce: "clocked world_rx_ext = 0" "trace world_rx_ext = []"
    "miso world_rx_ext 2 = 0xA8" "miso world_rx_ext 5 = 3"
    by (simp_all add: world_rx_ext_def)
  have cs: "clocked world_rx_std = 0" "trace world_rx_std = []"
    "miso world_rx_std 2 = 0xA0" "miso world_rx_std 5 = 3"
    by (simp_all add: world_rx_std_def)
  note te = rxb1_payload_read [OF be r we [symmetric] refl refl]
  note ts = rxb1_payload_read [OF bs r ws [symmetric] refl refl]
  have ie: "miso world_rx_ext 2 AND IDE_RECEIVED_EXTENDED_FRAME = IDE_RECEIVED_EXTENDED_FRAME
      \<and> miso world_rx_ext 5 AND RTR_RECEIVED_REMOTE_FRAME_REQUEST
           \<noteq> RTR_RECEIVED_REMOTE_FRAME_REQUEST"
    by (simp add: ce can_consts)
  have istd: "miso world_rx_std 2 AND IDE_RECEIVED_EXTENDED_FRAME \<noteq> IDE_RECEIVED_EXTENDED_FRAME
      \<and> miso world_rx_std 2 AND SRR_RECEIVED_STANDARD_REMOTE_REQUEST
           \<noteq> SRR_RECEIVED_STANDARD_REMOTE_REQUEST"
    by (simp add: cs can_consts)
  have n: "unat (miso world_rx_ext 5 AND 0x0F) = 3" "unat (miso world_rx_std 5 AND 0x0F) = 3"
    by (simp_all add: ce cs)
  from te ie have e: "trace (snd (CAN_Control_Read_CAN_Frame [0, 0, 0, 0, 0, 0] RX_rxb1
                                    world_rx_ext)) =
       read_transaction SPI1 0x70 6 @ read_transaction SPI1 0x76 3"
    by (simp only: ce n add_0 append_Nil) (simp add: can_consts)
  from ts istd have s: "trace (snd (CAN_Control_Read_CAN_Frame [0, 0, 0, 0, 0, 0] RX_rxb1
                                    world_rx_std)) =
       read_transaction SPI1 0x70 6 @ read_transaction SPI1 0x77 3"
    by (simp only: cs n add_0 append_Nil) (simp add: can_consts)
  from be bs r ie istd e s show ?thesis by (intro conjI) (elim conjE, assumption)+
qed

section \<open>Identifier round trip\<close>

lemma bit_below:
  fixes v :: u32
  assumes "v < 2 ^ k" and "bit v n"
  shows "n < k"
proof -
  have "v AND mask k = v" by (rule less_mask_eq [OF assms(1)])
  then have "bit (v AND mask k) n" using assms(2) by simp
  then show ?thesis by (simp add: bit_and_iff bit_mask_iff)
qed

lemma standard_id_round_trip:
  assumes "v < 2 ^ 11"
  shows "rx_standard_id (c # tx_id_registers TX_STANDARD_DATA_FRAME v @ [d]) = v"
proof (rule bit_eqI)
  fix n
  assume "possible_bit TYPE(u32) n"
  have hi: "n < 11" if "bit v n" using bit_below [OF assms that] .
  show "bit (rx_standard_id (c # tx_id_registers TX_STANDARD_DATA_FRAME v @ [d])) n = bit v n"
    using hi
    by (auto simp: rx_standard_id_def tx_id_registers_def can_consts bit_simps
        bit_word_ucast_iff)
qed

lemma masks8: "(0xE0 :: u8) = push_bit 5 (mask 3)" "(0x03 :: u8) = mask 2"
  by (simp_all add: mask_eq_exp_minus_1)

lemma masks32: "(0xE0 :: u32) = push_bit 5 (mask 3)" "(0x03 :: u32) = mask 2"
  "(0x1C0000 :: u32) = push_bit 18 (mask 3)"
  by (simp_all add: mask_eq_exp_minus_1)

lemma bit_sidl_sid:
  "bit (ucast (drop_bit 13 v AND 0xE0) :: u8) k = (5 \<le> k \<and> k < 8 \<and> bit v (13 + k))"
  for v :: u32
  unfolding masks32
  by (auto simp: bit_simps bit_word_ucast_iff)

lemma bit_sidl_eid:
  "bit (ucast (drop_bit 16 v AND 0x03) :: u8) k = (k < 2 \<and> bit v (16 + k))"
  for v :: u32
  unfolding masks32
  by (auto simp: bit_simps bit_word_ucast_iff)

lemma bit_mask_E0: "bit (x AND (0xE0 :: u8)) k = (5 \<le> k \<and> k < 8 \<and> bit x k)"
  unfolding masks8
  by (auto simp: bit_simps)

lemma bit_mask_03: "bit (x AND (0x03 :: u8)) k = (k < 2 \<and> bit x k)"
  unfolding masks8
  by (auto simp: bit_simps)

lemma bit_exide: "bit (0x08 :: int) k = (k = 3)"
proof -
  have "(0x08 :: int) = 2 ^ 3" by simp
  then show ?thesis by (simp only: bit_exp_iff) auto
qed

lemma bit_mask_1C0000: "bit (x AND (0x1C0000 :: u32)) k = (18 \<le> k \<and> k < 21 \<and> bit x k)"
  unfolding masks32
  by (auto simp: bit_simps)

lemma bit_not_1C0000:
  "bit (x AND NOT (0x1C0000 :: u32)) k = (bit x k \<and> \<not> (18 \<le> k \<and> k < 21))"
  unfolding masks32
  by (auto simp: bit_simps dest: bit_imp_le_length)

lemma bit_tx_sidl_masked: "bit ((ucast (drop_bit 13 v AND 0xE0) OR ucast (drop_bit 16 v AND 0x03) OR 0x08
                     :: u8) AND 0xE0) k = (5 \<le> k \<and> k < 8 \<and> bit v (13 + k))"
    "bit ((ucast (drop_bit 13 v AND 0xE0) OR ucast (drop_bit 16 v AND 0x03) OR 0x08
                     :: u8) AND 0x03) k = (k < 2 \<and> bit v (16 + k))" for v :: u32
    by (auto simp: bit_mask_E0 bit_mask_03 bit_or_iff bit_sidl_sid bit_sidl_eid bit_exide)

lemma rx_extended_id_of_tx: "rx_extended_id (c # tx_id_registers TX_EXTENDED_DATA_FRAME v @ [d]) =
      push_bit 21 (ucast (ucast (drop_bit 21 v) :: u8))
      OR push_bit 18 (ucast ((ucast (drop_bit 13 v AND 0xE0) OR ucast (drop_bit 16 v AND 0x03)
                                OR 0x08 :: u8) AND 0xE0))
      OR push_bit 16 (ucast ((ucast (drop_bit 13 v AND 0xE0) OR ucast (drop_bit 16 v AND 0x03)
                                OR 0x08 :: u8) AND 0x03))
      OR push_bit 8 (ucast (ucast (drop_bit 8 v) :: u8))
      OR ucast (ucast v :: u8)"
    by (simp add: rx_extended_id_def tx_id_registers_def id_registers_def Let_def can_consts
        or.assoc)

lemma upt32:
  "[0..<32] = [0, 1, 2, 3, 4, 5, 6, 7, 8, 9, 10, 11, 12, 13, 14, 15, 16, 17, 18, 19, 20, 21, 22,
              23, 24, 25, 26, 27, 28, 29, 30, 31 :: nat]"
  by code_simp

lemma extended_id_decoded:
  "rx_extended_id (c # tx_id_registers TX_EXTENDED_DATA_FRAME v @ [d]) =
     (take_bit 29 v AND NOT 0x1C0000) OR push_bit 5 (v AND 0x1C0000)"
proof (rule bit_eqI)
  fix n
  assume "possible_bit TYPE(u32) n"
  then have n: "n < 32" by (simp add: possible_bit_word)
  have l: "bit (rx_extended_id (c # tx_id_registers TX_EXTENDED_DATA_FRAME v @ [d])) n =
      (21 \<le> n \<and> n - 21 < 8 \<and> n - 21 < 32 \<and> n - 21 < 8 \<and> bit v (21 + (n - 21))
       \<or> 18 \<le> n \<and> n - 18 < 8 \<and> n - 18 < 32 \<and> 5 \<le> n - 18 \<and> n - 18 < 8
            \<and> bit v (13 + (n - 18))
       \<or> 16 \<le> n \<and> n - 16 < 8 \<and> n - 16 < 32 \<and> n - 16 < 2 \<and> bit v (16 + (n - 16))
       \<or> 8 \<le> n \<and> n - 8 < 8 \<and> n - 8 < 32 \<and> n - 8 < 8 \<and> bit v (8 + (n - 8))
       \<or> n < 8 \<and> bit v n)"
    unfolding rx_extended_id_of_tx using n
    by (simp only: bit_or_iff bit_push_bit_iff bit_word_ucast_iff bit_tx_sidl_masked bit_drop_bit_eq
        possible_bit_word o_def) simp
  have r: "bit ((take_bit 29 v AND NOT 0x1C0000) OR push_bit 5 (v AND 0x1C0000)) n =
      (n < 29 \<and> bit v n \<and> \<not> (18 \<le> n \<and> n < 21)
       \<or> 5 \<le> n \<and> n < 32 \<and> 18 \<le> n - 5 \<and> n - 5 < 21 \<and> bit v (n - 5))"
    using n
    by (simp only: bit_or_iff bit_not_1C0000 bit_mask_1C0000 bit_push_bit_iff
        bit_take_bit_iff possible_bit_word) simp
  have i: "13 + (n - 18) = n - 5" if "18 \<le> n" using that by arith
  have "n \<in> set [0..<32]" using n by simp
  then have c: "n \<in> set [0, 1, 2, 3, 4, 5, 6, 7, 8, 9, 10, 11, 12, 13, 14, 15, 16, 17, 18, 19, 20,
                     21, 22, 23, 24, 25, 26, 27, 28, 29, 30, 31]"
    unfolding upt32 .
  show "bit (rx_extended_id (c # tx_id_registers TX_EXTENDED_DATA_FRAME v @ [d])) n =
          bit ((take_bit 29 v AND NOT 0x1C0000) OR push_bit 5 (v AND 0x1C0000)) n"
    unfolding l r using c
    by (simp only: set_simps insert_iff empty_iff) (elim disjE, simp_all)
qed

lemma extended_id_round_trip_iff:
  assumes "v < 2 ^ 29"
  shows "(rx_extended_id (c # tx_id_registers TX_EXTENDED_DATA_FRAME v @ [d]) = v)
           = (v AND 0x1C0000 = 0)"
proof -
  have t: "take_bit 29 v = v"
    using less_mask_eq [OF assms] by (simp add: take_bit_eq_mask)
  have hi: "n < 29" if "bit v n" for n using bit_below [OF assms that] .
  have D: "bit ((v AND NOT 0x1C0000) OR push_bit 5 (v AND 0x1C0000)) n =
      (bit v n \<and> \<not> (18 \<le> n \<and> n < 21)
       \<or> 5 \<le> n \<and> n < 32 \<and> 18 \<le> n - 5 \<and> n - 5 < 21 \<and> bit v (n - 5))" for n
    by (simp only: bit_or_iff bit_not_1C0000 bit_mask_1C0000 bit_push_bit_iff
        possible_bit_word) simp
  show ?thesis
    unfolding extended_id_decoded t
  proof
    assume eq: "(v AND NOT 0x1C0000) OR push_bit 5 (v AND 0x1C0000) = v"
    show "v AND 0x1C0000 = 0"
    proof (rule bit_eqI)
      fix n
      have "\<not> (18 \<le> n \<and> n < 21 \<and> bit v n)"
      proof
        assume a: "18 \<le> n \<and> n < 21 \<and> bit v n"
        then have "bit ((v AND NOT 0x1C0000) OR push_bit 5 (v AND 0x1C0000)) n"
          by (simp only: eq)
        with a show False unfolding D by auto
      qed
      then show "bit (v AND 0x1C0000) n = bit (0 :: u32) n"
        by (simp only: bit_mask_1C0000) simp
    qed
  next
    assume z: "v AND 0x1C0000 = 0"
    have nz: "\<not> (18 \<le> n \<and> n < 21 \<and> bit v n)" for n
    proof -
      have "bit (v AND 0x1C0000) n = False" by (simp only: z) simp
      then show ?thesis by (simp only: bit_mask_1C0000) simp
    qed
    show "(v AND NOT 0x1C0000) OR push_bit 5 (v AND 0x1C0000) = v"
    proof (rule bit_eqI)
      fix n
      have "\<not> (5 \<le> n \<and> n < 32 \<and> 18 \<le> n - 5 \<and> n - 5 < 21 \<and> bit v (n - 5))"
        using nz [of "n - 5"] by auto
      then show "bit ((v AND NOT 0x1C0000) OR push_bit 5 (v AND 0x1C0000)) n = bit v n"
        unfolding D using nz [of n] by auto
    qed
  qed
qed

lemma le_word_le_bytes: "le_word (xs @ le_bytes v @ ys) (length xs) = v"
proof -
  have "ucast (ucast v :: u8) OR push_bit 8 (ucast (ucast (drop_bit 8 v) :: u8))
        OR push_bit 16 (ucast (ucast (drop_bit 16 v) :: u8))
        OR push_bit 24 (ucast (ucast (drop_bit 24 v) :: u8)) = v"
  proof (rule bit_eqI)
    fix n
    assume "possible_bit TYPE(u32) n"
    then have n: "n < 32" by (simp add: possible_bit_word)
    then have "n \<in> set [0..<32]" by simp
    then have c: "n \<in> set [0, 1, 2, 3, 4, 5, 6, 7, 8, 9, 10, 11, 12, 13, 14, 15, 16, 17, 18,
                             19, 20, 21, 22, 23, 24, 25, 26, 27, 28, 29, 30, 31]"
      unfolding upt32 .
    show "bit (ucast (ucast v :: u8) OR push_bit 8 (ucast (ucast (drop_bit 8 v) :: u8))
        OR push_bit 16 (ucast (ucast (drop_bit 16 v) :: u8))
        OR push_bit 24 (ucast (ucast (drop_bit 24 v) :: u8)) :: u32) n = bit v n"
      using c
      by (simp only: set_simps insert_iff empty_iff)
         (elim disjE, simp_all add: bit_or_iff bit_push_bit_iff bit_word_ucast_iff
            bit_drop_bit_eq possible_bit_word)
  qed
  then show ?thesis
    by (simp add: le_word_def le_bytes_def nth_append)
qed

lemma rxid_after_short_read:
  assumes "length bytes \<le> 8"
  shows "rxid (rx_memory_put 1 (store (rx_memory_from 1 rx) bytes) rx) = rxid rx"
proof
  fix j
  let ?m = "store (rx_memory_from 1 rx) bytes"
  have m: "?m = bytes @ drop (length bytes) (map (rx_data rx 1) [0..<8])
                 @ le_bytes (rxid rx 0) @ le_bytes (rxid rx 1)"
    using assms by (simp add: store_def rx_memory_from_def)
  have l: "length (bytes @ drop (length bytes) (map (rx_data rx 1) [0..<8])) = 8"
    using assms by simp
  have r0: "le_word ?m 8 = rxid rx 0"
    unfolding m using le_word_le_bytes
      [of "bytes @ drop (length bytes) (map (rx_data rx 1) [0..<8])" "rxid rx 0"
          "le_bytes (rxid rx 1)"]
    by (simp only: l append_assoc)
  have l2: "length (bytes @ drop (length bytes) (map (rx_data rx 1) [0..<8])
                    @ le_bytes (rxid rx 0)) = 12"
    using assms by (simp add: le_bytes_def)
  have r1: "le_word ?m 12 = rxid rx 1"
    unfolding m using le_word_le_bytes
      [of "(bytes @ drop (length bytes) (map (rx_data rx 1) [0..<8])) @ le_bytes (rxid rx 0)"
          "rxid rx 1" "[]"]
    by (simp only: l2 append_assoc append_Nil2)
  show "rxid (rx_memory_put 1 ?m rx) j = rxid rx j"
    using r0 r1 by (simp add: rx_memory_put_def Let_def)
qed


lemma fst_Register_Read_on_bus:
  assumes "on_bus w b"
  shows "fst (CAN_Control_Register_Read a data sz w)
           = store data (map (miso w) [clocked w ..< clocked w + unat sz])"
  by (simp add: Register_Read_on_bus [OF assms])

lemma rxid_after_data_read:
  assumes "on_bus w b" and "unat sz \<le> 8"
  shows "rxid (rx_memory_put 1 (fst (CAN_Control_Register_Read a (rx_memory_from 1 rx) sz w))
                 rx) = rxid rx"
  using assms(2)
  by (simp add: fst_Register_Read_on_bus [OF assms(1)]
      rxid_after_short_read [unfolded One_nat_def])

text \<open>
  A read of fifteen data bytes into \<open>data[1]\<close> does reach the identifiers: seven of
  the bytes land on \<open>rxid[0]\<close> and the low three bytes of \<open>rxid[1]\<close>.
\<close>

lemma rxid_after_long_read:
  "rxid (rx_memory_put 1
           (store (rx_memory_from 1 rx)
              [1, 2, 3, 4, 5, 6, 7, 8, 0x11, 0x22, 0x33, 0x44, 0x55, 0x66, 0x77]) rx) 0
     = 0x44332211"
  by (simp add: rx_memory_put_def rx_memory_from_def store_def le_word_def le_bytes_def)

text \<open>
  C1 fails on extended identifiers. The transmitter packs the identifier 0x1D0CAFC8 of
  main.c into the header E8 68 AF C8; the receiver, given these bytes back in RXB1,
  reports an extended data frame with identifier 0x1D80AFC8: it shifts SID[2:0] of
  SIDL left by 18 where the packing shifted right by 13.
\<close>

theorem extended_id_round_trip_fails:
  "txid CAN1_TX 1 = 0x1D0CAFC8 \<and> txframetype CAN1_TX 1 = TX_EXTENDED_DATA_FRAME
   \<and> tx_header 1 CAN1_TX = [0xE8, 0x68, 0xAF, 0xC8, 0x05]
   \<and> rxframetype (fst (CAN_Control_Read_CAN_Frame [0, 0, 0, 0, 0, 0] RX_rxb1 world_rx_loop)) 1
        = RX_EXTENDED_DATA_FRAME
   \<and> rxid (fst (CAN_Control_Read_CAN_Frame [0, 0, 0, 0, 0, 0] RX_rxb1 world_rx_loop)) 1
        = 0x1D80AFC8
   \<and> rx_extended_id (0 # tx_id_registers TX_EXTENDED_DATA_FRAME 0x1D0CAFC8 @ [5]) \<noteq> 0x1D0CAFC8"
proof -
  have h: "tx_header 1 CAN1_TX = [0xE8, 0x68, 0xAF, 0xC8, 0x05]"
    by (simp add: tx_header_def CAN1_TX_def tx_id_registers_def id_registers_def Let_def
        can_consts)
  have m: "miso world_rx_loop = (\<lambda>k. if k < 6 then [0, 0xE8, 0x68, 0xAF, 0xC8, 0x05] ! k else 0)"
    unfolding world_rx_loop_def h by simp
  have b: "on_bus world_rx_loop SPI1"
    by (simp add: on_bus_def world_rx_loop_def CAN1_Handler_def)
  have c: "clocked world_rx_loop = 0" by (simp add: world_rx_loop_def)
  have rd: "CAN_Control_Register_Read RXB1CTRL_REG [0, 0, 0, 0, 0, 0] 6 world_rx_loop =
      ([0, 0xE8, 0x68, 0xAF, 0xC8, 0x05],
       world_rx_loop\<lparr>trace := trace world_rx_loop @ read_transaction SPI1 RXB1CTRL_REG 6,
                       clocked := 6\<rparr>)"
    by (simp add: Register_Read_on_bus [OF b] c m store_def upt_rec)
  have r: "rxbuffernmbr RX_rxb1 = RXB1" by (simp add: RX_rxb1_def)
  have rx: "fst (CAN_Control_Read_CAN_Frame [0, 0, 0, 0, 0, 0] RX_rxb1 world_rx_loop)
      = fst (snd (Read_RXB1 [0, 0, 0, 0, 0, 0] RX_rxb1 world_rx_loop))"
    by (simp add: CAN_Control_Read_CAN_Frame_def r split_beta Let_def) (simp add: can_consts)
  have ft: "rxframetype (fst (snd (Read_RXB1 [0, 0, 0, 0, 0, 0] RX_rxb1 world_rx_loop))) 1
      = RX_EXTENDED_DATA_FRAME"
    by (simp add: Read_RXB1_def rd Let_def split_beta) (simp add: can_consts)
  have id: "rxid (fst (snd (Read_RXB1 [0, 0, 0, 0, 0, 0] RX_rxb1 world_rx_loop))) 1
      = 0x1D80AFC8"
    apply (simp add: Read_RXB1_def rd Let_def split_beta)
    apply (simp add: rx_extended_id_def can_consts)
    apply (subst rxid_after_data_read [unfolded One_nat_def, of _ SPI1])
      apply (simp add: on_bus_def world_rx_loop_def CAN1_Handler_def can_consts)
     apply simp
    apply simp
    done
  have ne: "rx_extended_id (0 # tx_id_registers TX_EXTENDED_DATA_FRAME 0x1D0CAFC8 @ [5])
      \<noteq> 0x1D0CAFC8"
    by (simp add: rx_extended_id_def tx_id_registers_def id_registers_def Let_def can_consts)
  have tx: "txid CAN1_TX 1 = 0x1D0CAFC8" "txframetype CAN1_TX 1 = TX_EXTENDED_DATA_FRAME"
    by (simp_all add: CAN1_TX_def)
  show ?thesis
    unfolding rx using tx h ft id ne by (intro conjI)
qed

end
